theory Spec2Isabelle
  imports Main "HOL-Library.Word"
begin

unbundle bit_operations_syntax

section \<open>The environment of the updater\<close>

text \<open>
  The package \<^verbatim>\<open>selfupdate\<close> talks to three things outside itself: the file system
  (\<^verbatim>\<open>os.OpenFile\<close>, \<^verbatim>\<open>os.Rename\<close>, \<^verbatim>\<open>os.Remove\<close>, ...), the network (the \<^verbatim>\<open>Requester\<close>)
  and two decoders (JSON, zstd).  They are modelled by a record \<open>world\<close> that is passed through
  every function and returned updated.  Every call that leaves the package is appended to the
  \<open>trace\<close> of the world together with its outcome, and a call may fail for a reason the package
  cannot see (permissions, disk full, a file held open by another process): the field
  \<open>fault\<close> says, for the n-th call of a run, whether it fails and how.
\<close>

subsection \<open>Paths\<close>

text \<open>
  \<^verbatim>\<open>os.Executable\<close> returns an absolute path.  A path is the list of its elements:
  \<^verbatim>\<open>/usr/local/bin/app\<close> is \<open>[''usr'', ''local'', ''bin'', ''app'']\<close>.  On such paths
  \<^verbatim>\<open>filepath.Dir\<close> drops the last element, \<^verbatim>\<open>filepath.Base\<close> returns it, and \<^verbatim>\<open>filepath.Join\<close>
  of a directory and one element name appends it.  \<^verbatim>\<open>filepath.Base\<close> of the root is \<^verbatim>\<open>/\<close>; the
  root, which is no executable, is the one path for which the name built from it is not a
  single element.
\<close>

type_synonym path = "string list"

definition filepath_Dir :: "path \<Rightarrow> path" where
  "filepath_Dir p = butlast p"

definition filepath_Base :: "path \<Rightarrow> string" where
  "filepath_Base p = (case p of [] \<Rightarrow> ''/'' | _ \<Rightarrow> last p)"

definition filepath_Join :: "path \<Rightarrow> string \<Rightarrow> path" where
  "filepath_Join dir name = dir @ [name]"

subsection \<open>Files, errors, readers\<close>

type_synonym bytes = "8 word list"

type_synonym FileMode = "32 word"

record fsfile =
  content :: bytes
  mode :: FileMode
  hidden :: bool

text \<open>
  Go errors.  \<open>OSError\<close> stands for any error value handed up by the operating system or a
  library, told apart by its message.  The other constructors are the errors the package and
  the calls it makes build themselves; \<open>Errorf_update_and_recovery err errRecover\<close> is
  \<^verbatim>\<open>fmt.Errorf("update and recovery errors: %q %q", err, errRecover)\<close>, whose first argument
  may be \<^verbatim>\<open>nil\<close>.
\<close>

datatype error =
    OSError string
  | ErrNotExist
  | EINVAL
  | BadHTTPStatus string nat
  | NilReadCloser
  | Errorf_update_and_recovery "error option" error

text \<open>
  An \<^verbatim>\<open>io.Reader\<close>: the bytes it delivers and the error, if any, that ends the stream
  in place of \<^verbatim>\<open>io.EOF\<close>.
\<close>

datatype reader = Reader bytes "error option"

definition bytes_NewBuffer :: "bytes \<Rightarrow> reader" where
  "bytes_NewBuffer b = Reader b None"

fun io_ReadAll :: "reader \<Rightarrow> bytes \<times> error option" where
  "io_ReadAll (Reader b e) = (b, e)"

record info =
  Version :: string

subsection \<open>Calls that leave the package\<close>

datatype sysop =
    Executable
  | EvalSymlinks path
  | Open path
  | OpenFile path FileMode
  | Write path bytes
  | Remove path
  | Rename path path
  | SetFileAttributesW path "32 word"
  | Fetch string
  | Callback

type_synonym event = "sysop \<times> error option"

record world =
  files :: "path \<rightharpoonup> fsfile"
  trace :: "event list"
  executable :: path
  symlinks :: "path \<Rightarrow> path"
  umask :: FileMode
  fault :: "nat \<Rightarrow> sysop \<Rightarrow> error option"
  short_write :: "nat \<Rightarrow> nat"
  http :: "string \<Rightarrow> nat \<times> reader"
  json_Decode :: "reader \<Rightarrow> info \<Rightarrow> error option \<times> info"
  zstd_Decode :: "reader \<Rightarrow> error + bytes"
  GOOS :: string
  GOARCH :: string

text \<open>
  What a call does to the files when nothing outside interferes.  \<open>OpenFile\<close> is always
  called with \<^verbatim>\<open>O_CREATE|O_WRONLY|O_TRUNC\<close>: a new file gets the requested mode less the
  umask, an existing one is truncated and keeps its mode.  \<open>Rename\<close> replaces the
  destination.  \<open>SetFileAttributesW\<close> sets the whole attribute word; bit 2 is
  \<^verbatim>\<open>FILE_ATTRIBUTE_HIDDEN\<close>.
\<close>

fun effect :: "sysop \<Rightarrow> world \<Rightarrow> error option \<times> (path \<rightharpoonup> fsfile)" where
  "effect Executable w = (None, files w)"
| "effect (EvalSymlinks p) w = (None, files w)"
| "effect (Open p) w =
     (case files w p of None \<Rightarrow> (Some ErrNotExist, files w) | Some f \<Rightarrow> (None, files w))"
| "effect (OpenFile p m) w =
     (case files w p of
        None \<Rightarrow> (None, (files w)(p \<mapsto> \<lparr>content = [], mode = m AND NOT (umask w), hidden = False\<rparr>))
      | Some f \<Rightarrow> (None, (files w)(p \<mapsto> f\<lparr>content := []\<rparr>)))"
| "effect (Write p b) w =
     (case files w p of
        None \<Rightarrow> (Some ErrNotExist, files w)
      | Some f \<Rightarrow> (None, (files w)(p \<mapsto> f\<lparr>content := content f @ b\<rparr>)))"
| "effect (Remove p) w =
     (case files w p of
        None \<Rightarrow> (Some ErrNotExist, files w)
      | Some f \<Rightarrow> (None, (files w)(p := None)))"
| "effect (Rename src dst) w =
     (case files w src of
        None \<Rightarrow> (Some ErrNotExist, files w)
      | Some f \<Rightarrow> (None, ((files w)(src := None))(dst \<mapsto> f)))"
| "effect (SetFileAttributesW p a) w =
     (case files w p of
        None \<Rightarrow> (Some ErrNotExist, files w)
      | Some f \<Rightarrow> (None, (files w)(p \<mapsto> f\<lparr>hidden := (a AND 2 \<noteq> 0)\<rparr>)))"
| "effect (Fetch url) w = (None, files w)"
| "effect Callback w = (None, files w)"

text \<open>
  What a call leaves behind when it fails from outside: nothing, except that a failed write has
  written the first \<open>k\<close> bytes.
\<close>

fun failed_effect :: "sysop \<Rightarrow> nat \<Rightarrow> world \<Rightarrow> (path \<rightharpoonup> fsfile)" where
  "failed_effect (Write p b) k w =
     (case files w p of
        None \<Rightarrow> files w
      | Some f \<Rightarrow> (files w)(p \<mapsto> f\<lparr>content := content f @ take k b\<rparr>))"
| "failed_effect _ k w = files w"

definition syscall :: "sysop \<Rightarrow> world \<Rightarrow> error option \<times> world" where
  "syscall op w =
     (let n = length (trace w) in
      case fault w n op of
        Some e \<Rightarrow>
          (Some e, w\<lparr>files := failed_effect op (short_write w n) w, trace := trace w @ [(op, Some e)]\<rparr>)
      | None \<Rightarrow>
          (case effect op w of
             (r, fs) \<Rightarrow> (r, w\<lparr>files := fs, trace := trace w @ [(op, r)]\<rparr>)))"

definition os_Executable :: "world \<Rightarrow> (error + path) \<times> world" where
  "os_Executable w =
     (case syscall Executable w of
        (Some e, w') \<Rightarrow> (Inl e, w')
      | (None, w') \<Rightarrow> (Inr (executable w), w'))"

definition filepath_EvalSymlinks :: "path \<Rightarrow> world \<Rightarrow> (error + path) \<times> world" where
  "filepath_EvalSymlinks p w =
     (case syscall (EvalSymlinks p) w of
        (Some e, w') \<Rightarrow> (Inl e, w')
      | (None, w') \<Rightarrow> (Inr (symlinks w p), w'))"

definition os_Open :: "path \<Rightarrow> world \<Rightarrow> error option \<times> world" where
  "os_Open p w = syscall (Open p) w"

definition os_OpenFile :: "path \<Rightarrow> FileMode \<Rightarrow> world \<Rightarrow> error option \<times> world" where
  "os_OpenFile p m w = syscall (OpenFile p m) w"

definition io_Copy :: "path \<Rightarrow> bytes \<Rightarrow> world \<Rightarrow> error option \<times> world" where
  "io_Copy p b w = syscall (Write p b) w"

definition os_Remove :: "path \<Rightarrow> world \<Rightarrow> error option \<times> world" where
  "os_Remove p w = syscall (Remove p) w"

definition os_Rename :: "path \<Rightarrow> path \<Rightarrow> world \<Rightarrow> error option \<times> world" where
  "os_Rename src dst w = syscall (Rename src dst) w"

section \<open>The package \<^verbatim>\<open>selfupdate\<close>\<close>

subsection \<open>URLs\<close>

text \<open>
  \<^verbatim>\<open>url.QueryEscape\<close>: letters, digits and \<^verbatim>\<open>-_.~\<close> stay, a space becomes \<^verbatim>\<open>+\<close>, every
  other byte becomes \<^verbatim>\<open>%XX\<close> in upper-case hexadecimal.
\<close>

definition unreserved :: "char \<Rightarrow> bool" where
  "unreserved c =
     (c \<in> set ''abcdefghijklmnopqrstuvwxyzABCDEFGHIJKLMNOPQRSTUVWXYZ0123456789-_.~'')"

definition upperhex :: "nat \<Rightarrow> char" where
  "upperhex n = ''0123456789ABCDEF'' ! (n mod 16)"

definition escape_byte :: "char \<Rightarrow> string" where
  "escape_byte c =
     (if unreserved c then [c]
      else if c = CHR '' '' then ''+''
      else [CHR ''%'', upperhex (of_char c div 16), upperhex (of_char c mod 16)])"

definition url_QueryEscape :: "string \<Rightarrow> string" where
  "url_QueryEscape s = concat (map escape_byte s)"

text \<open>The constant \<^verbatim>\<open>plat = runtime.GOOS + "-" + runtime.GOARCH\<close>.\<close>

definition plat :: "world \<Rightarrow> string" where
  "plat w = GOOS w @ ''-'' @ GOARCH w"

subsection \<open>The updater\<close>

text \<open>
  A \<^verbatim>\<open>Requester\<close> set by the caller is a function from the URL to the pair
  \<^verbatim>\<open>(io.ReadCloser, error)\<close> it returns, either of which may be \<^verbatim>\<open>nil\<close>.  The callback
  \<^verbatim>\<open>OnSuccessfulUpdate\<close> is code of the caller: it may do anything to the files, and its call
  is traced as the single event \<open>Callback\<close>.
\<close>

type_synonym Requester = "string \<Rightarrow> reader option \<times> error option"

record Updater =
  CurrentVersion :: string
  ApiURL :: string
  CmdName :: string
  CheckTime :: int
  RandomizeTime :: int
  Requester :: "Requester option"
  Info :: info
  OnSuccessfulUpdate :: "((path \<rightharpoonup> fsfile) \<Rightarrow> (path \<rightharpoonup> fsfile)) option"

definition run_callback :: "((path \<rightharpoonup> fsfile) \<Rightarrow> (path \<rightharpoonup> fsfile)) \<Rightarrow> world \<Rightarrow> world" where
  "run_callback callback w = w\<lparr>files := callback (files w), trace := trace w @ [(Callback, None)]\<rparr>"

text \<open>
  \<^verbatim>\<open>HTTPRequester.Fetch\<close>: the GET itself may fail; a status other than 200 is an error.
\<close>

definition HTTPRequester_Fetch :: "string \<Rightarrow> world \<Rightarrow> (reader option \<times> error option) \<times> world" where
  "HTTPRequester_Fetch url w =
     (case syscall (Fetch url) w of
        (Some err, w') \<Rightarrow> ((None, Some err), w')
      | (None, w') \<Rightarrow>
          (case http w url of
             (status, body) \<Rightarrow>
               if status \<noteq> 200 then ((None, Some (BadHTTPStatus url status)), w')
               else ((Some body, None), w')))"

text \<open>The call of a caller-supplied requester is a request as well, and is traced as one.\<close>

definition Requester_Fetch :: "Requester \<Rightarrow> string \<Rightarrow> world \<Rightarrow> (reader option \<times> error option) \<times> world" where
  "Requester_Fetch rq url w =
     (case rq url of
        (readCloser, err) \<Rightarrow> ((readCloser, err), w\<lparr>trace := trace w @ [(Fetch url, err)]\<rparr>))"

definition fetch :: "Updater \<Rightarrow> string \<Rightarrow> world \<Rightarrow> (reader option \<times> error option) \<times> world" where
  "fetch u url w =
     (case Requester u of
        None \<Rightarrow> HTTPRequester_Fetch url w
      | Some rq \<Rightarrow>
          (case Requester_Fetch rq url w of
             ((readCloser, Some err), w') \<Rightarrow> ((None, Some err), w')
           | ((None, None), w') \<Rightarrow> ((None, Some NilReadCloser), w')
           | ((Some r, None), w') \<Rightarrow> ((Some r, None), w')))"

text \<open>
  \<^verbatim>\<open>FetchInfo\<close>.  The default requester never returns a \<^verbatim>\<open>nil\<close> body without an error, and
  \<open>fetch\<close> excludes it for the others, so the \<open>None\<close> body below is not reached; Go would
  panic there, which the model reports as \<open>NilReadCloser\<close>.  The decoder writes into
  \<^verbatim>\<open>u.Info\<close> and may have done so when it fails.
\<close>

definition FetchInfo :: "Updater \<Rightarrow> world \<Rightarrow> Updater \<times> error option \<times> world" where
  "FetchInfo u w =
     (case fetch u (ApiURL u @ url_QueryEscape (CmdName u) @ ''/'' @ url_QueryEscape (plat w) @ ''.json'') w of
        ((_, Some err), w') \<Rightarrow> (u, Some err, w')
      | ((None, None), w') \<Rightarrow> (u, Some NilReadCloser, w')
      | ((Some r, None), w') \<Rightarrow>
          (case json_Decode w' r (Info u) of
             (Some err, i) \<Rightarrow> (u\<lparr>Info := i\<rparr>, Some err, w')
           | (None, i) \<Rightarrow> (u\<lparr>Info := i\<rparr>, None, w')))"

text \<open>
  \<^verbatim>\<open>fetchBin\<close>: \<open>zstd_Decode\<close> stands for \<^verbatim>\<open>zstd.NewReader\<close> followed by \<^verbatim>\<open>io.Copy\<close> into
  the buffer; both return their error alike.
\<close>

definition fetchBin :: "Updater \<Rightarrow> world \<Rightarrow> (error + bytes) \<times> world" where
  "fetchBin u w =
     (case fetch u (ApiURL u @ url_QueryEscape (CmdName u) @ ''/'' @ url_QueryEscape (Version (Info u))
                      @ ''/'' @ url_QueryEscape (plat w) @ ''.zst'') w of
        ((_, Some err), w') \<Rightarrow> (Inl err, w')
      | ((None, None), w') \<Rightarrow> (Inl NilReadCloser, w')
      | ((Some r, None), w') \<Rightarrow>
          (case zstd_Decode w' r of
             Inl err \<Rightarrow> (Inl err, w')
           | Inr buf \<Rightarrow> (Inr buf, w')))"

definition fetchFullBin :: "Updater \<Rightarrow> world \<Rightarrow> (error + bytes) \<times> world" where
  "fetchFullBin u w =
     (case fetchBin u w of
        (Inl err, w') \<Rightarrow> (Inl err, w')
      | (Inr bin, w') \<Rightarrow> (Inr bin, w'))"

subsection \<open>Hiding a file (Windows)\<close>

text \<open>
  \<^verbatim>\<open>syscall.UTF16PtrFromString\<close> fails with \<^verbatim>\<open>EINVAL\<close> on a string with a NUL byte; then
  \<^verbatim>\<open>SetFileAttributesW(path, 2)\<close> is called and its failure returned.
\<close>

definition has_NUL :: "path \<Rightarrow> bool" where
  "has_NUL p = (CHR 0x00 \<in> set (concat p))"

definition hideFile :: "path \<Rightarrow> world \<Rightarrow> error option \<times> world" where
  "hideFile p w =
     (if has_NUL p then (Some EINVAL, w)
      else syscall (SetFileAttributesW p 2) w)"

subsection \<open>The replacement transaction\<close>

text \<open>The octal literal \<^verbatim>\<open>0755\<close>.\<close>

definition perm_0755 :: FileMode where
  "perm_0755 = 7 * 64 + 5 * 8 + 5"

definition newPath_of :: "path \<Rightarrow> path" where
  "newPath_of updatePath =
     filepath_Join (filepath_Dir updatePath) (''.'' @ filepath_Base updatePath @ ''.new'')"

definition oldPath_of :: "path \<Rightarrow> path" where
  "oldPath_of updatePath =
     filepath_Join (filepath_Dir updatePath) (''.'' @ filepath_Base updatePath @ ''.old'')"

text \<open>
  \<^verbatim>\<open>fromStream\<close> returns \<^verbatim>\<open>(err, errRecover)\<close>.  The result of \<^verbatim>\<open>io.Copy\<close> is assigned to
  \<^verbatim>\<open>err\<close> and \<^verbatim>\<open>err\<close> is assigned again by the next \<^verbatim>\<open>os.Rename\<close> before anything reads it.
  The results of the first \<^verbatim>\<open>os.Remove\<close> and of \<^verbatim>\<open>hideFile\<close> are discarded.
\<close>

definition fromStream :: "reader \<Rightarrow> world \<Rightarrow> error option \<times> error option \<times> world" where
  "fromStream updateWith w =
     (case os_Executable w of
        (Inl err, w1) \<Rightarrow> (Some err, None, w1)
      | (Inr updatePath, w1) \<Rightarrow>
     (case io_ReadAll updateWith of
        (newBytes, Some err) \<Rightarrow> (Some err, None, w1)
      | (newBytes, None) \<Rightarrow>
     (let newPath = newPath_of updatePath in
      case os_OpenFile newPath perm_0755 w1 of
        (Some err, w2) \<Rightarrow> (Some err, None, w2)
      | (None, w2) \<Rightarrow>
     (case io_Copy newPath newBytes w2 of
        (err_copy, w3) \<Rightarrow>
     (let oldPath = oldPath_of updatePath in
      case os_Remove oldPath w3 of
        (_, w4) \<Rightarrow>
     (case os_Rename updatePath oldPath w4 of
        (Some err, w5) \<Rightarrow> (Some err, None, w5)
      | (None, w5) \<Rightarrow>
     (case os_Rename newPath updatePath w5 of
        (Some err, w6) \<Rightarrow>
          (case os_Rename oldPath updatePath w6 of
             (errRecover, w7) \<Rightarrow> (Some err, errRecover, w7))
      | (None, w6) \<Rightarrow>
          (case os_Remove oldPath w6 of
             (Some errRemove, w7) \<Rightarrow>
               (case hideFile oldPath w7 of (_, w8) \<Rightarrow> (None, None, w8))
           | (None, w7) \<Rightarrow> (None, None, w7)))))))))"

subsection \<open>The public operations\<close>

text \<open>
  Closing a file (\<^verbatim>\<open>fp.Close\<close>, \<^verbatim>\<open>old.Close\<close>, \<^verbatim>\<open>r.Close\<close>, deferred or not) and the line
  \<^verbatim>\<open>log.Println\<close> prints when the artifact cannot be fetched change no file and no result;
  they are left out.  A call that fails because a file is still open fails through \<open>fault\<close>.
\<close>

definition canUpdate :: "world \<Rightarrow> error option \<times> world" where
  "canUpdate w =
     (case os_Executable w of
        (Inl err, w1) \<Rightarrow> (Some err, w1)
      | (Inr path, w1) \<Rightarrow>
          (let newPath = newPath_of path in
           case os_OpenFile newPath perm_0755 w1 of
             (Some err, w2) \<Rightarrow> (Some err, w2)
           | (None, w2) \<Rightarrow>
               (case os_Remove newPath w2 of (_, w3) \<Rightarrow> (None, w3))))"

definition WantUpdate :: "Updater \<Rightarrow> bool" where
  "WantUpdate u = (if CurrentVersion u = ''dev'' then False else True)"

definition UpdateAvailable :: "Updater \<Rightarrow> world \<Rightarrow> Updater \<times> (error + string) \<times> world" where
  "UpdateAvailable u w =
     (case os_Executable w of
        (Inl err, w1) \<Rightarrow> (u, Inl err, w1)
      | (Inr path, w1) \<Rightarrow>
     (case os_Open path w1 of
        (Some err, w2) \<Rightarrow> (u, Inl err, w2)
      | (None, w2) \<Rightarrow>
     (case FetchInfo u w2 of
        (u', Some err, w3) \<Rightarrow> (u', Inl err, w3)
      | (u', None, w3) \<Rightarrow>
          if Version (Info u') = CurrentVersion u' then (u', Inr [], w3)
          else (u', Inr (Version (Info u')), w3))))"

text \<open>
  The part \<^verbatim>\<open>Update\<close> and \<^verbatim>\<open>UpdateForce\<close> have in common, word for word, from
  \<^verbatim>\<open>old, err := os.Open(path)\<close> to the end.
\<close>

definition install :: "Updater \<Rightarrow> path \<Rightarrow> world \<Rightarrow> Updater \<times> error option \<times> world" where
  "install u path w =
     (case os_Open path w of
        (Some err, w1) \<Rightarrow> (u, Some err, w1)
      | (None, w1) \<Rightarrow>
     (case fetchFullBin u w1 of
        (Inl err, w2) \<Rightarrow> (u, Some err, w2)
      | (Inr bin, w2) \<Rightarrow>
     (case fromStream (bytes_NewBuffer bin) w2 of
        (err, Some errRecover, w3) \<Rightarrow> (u, Some (Errorf_update_and_recovery err errRecover), w3)
      | (Some err, None, w3) \<Rightarrow> (u, Some err, w3)
      | (None, None, w3) \<Rightarrow>
          (case OnSuccessfulUpdate u of
             Some callback \<Rightarrow> (u, None, run_callback callback w3)
           | None \<Rightarrow> (u, None, w3)))))"

text \<open>
  \<^verbatim>\<open>filepath.EvalSymlinks\<close> replaces \<^verbatim>\<open>path\<close> when it succeeds; when it fails, \<^verbatim>\<open>path\<close> stays.
\<close>

definition resolve :: "path \<Rightarrow> world \<Rightarrow> path \<times> world" where
  "resolve path w =
     (case filepath_EvalSymlinks path w of
        (Inr resolvedPath, w') \<Rightarrow> (resolvedPath, w')
      | (Inl err, w') \<Rightarrow> (path, w'))"

definition Update :: "Updater \<Rightarrow> world \<Rightarrow> Updater \<times> error option \<times> world" where
  "Update u w =
     (case os_Executable w of
        (Inl err, w1) \<Rightarrow> (u, Some err, w1)
      | (Inr path0, w1) \<Rightarrow>
     (case resolve path0 w1 of
        (path, w2) \<Rightarrow>
     (case FetchInfo u w2 of
        (u', Some err, w3) \<Rightarrow> (u', Some err, w3)
      | (u', None, w3) \<Rightarrow>
          if Version (Info u') = CurrentVersion u' then (u', None, w3)
          else install u' path w3)))"

definition UpdateForce :: "Updater \<Rightarrow> world \<Rightarrow> Updater \<times> error option \<times> world" where
  "UpdateForce u w =
     (case os_Executable w of
        (Inl err, w1) \<Rightarrow> (u, Some err, w1)
      | (Inr path0, w1) \<Rightarrow>
     (case resolve path0 w1 of
        (path, w2) \<Rightarrow> install u path w2))"

definition BackgroundRun :: "Updater \<Rightarrow> world \<Rightarrow> Updater \<times> error option \<times> world" where
  "BackgroundRun u w =
     (if WantUpdate u then
        (case canUpdate w of
           (Some err, w1) \<Rightarrow> (u, Some err, w1)
         | (None, w1) \<Rightarrow>
             (case Update u w1 of
                (u', Some err, w2) \<Rightarrow> (u', Some err, w2)
              | (u', None, w2) \<Rightarrow> (u', None, w2)))
      else (u, None, w))"

subsection \<open>Reading a trace\<close>

definition new_events :: "world \<Rightarrow> world \<Rightarrow> event list" where
  "new_events w w' = drop (length (trace w)) (trace w')"

definition world_after :: "'a \<times> 'b \<times> world \<Rightarrow> world" where
  "world_after r = snd (snd r)"

fun is_request :: "sysop \<Rightarrow> bool" where
  "is_request (Fetch url) = True"
| "is_request _ = False"

fun is_mutation :: "sysop \<Rightarrow> bool" where
  "is_mutation (OpenFile p m) = True"
| "is_mutation (Write p b) = True"
| "is_mutation (Remove p) = True"
| "is_mutation (Rename src dst) = True"
| "is_mutation (SetFileAttributesW p a) = True"
| "is_mutation Callback = True"
| "is_mutation _ = False"

definition requests :: "event list \<Rightarrow> event list" where
  "requests evs = filter (\<lambda>ev. is_request (fst ev)) evs"

definition mutations :: "event list \<Rightarrow> event list" where
  "mutations evs = filter (\<lambda>ev. is_mutation (fst ev)) evs"

section \<open>Example sessions\<close>

text \<open>
  A small world to run the package in: the executable is \<^verbatim>\<open>/opt/app\<close> with mode \<^verbatim>\<open>0700\<close>;
  the server holds the manifest of \<^verbatim>\<open>app\<close> for \<^verbatim>\<open>linux-amd64\<close>, which decodes to version
  \<^verbatim>\<open>1.2.0\<close>, and the artifact of that version, which decodes to its own bytes \<open>[7, 8, 9]\<close>;
  it answers 404 to anything else.
\<close>

definition exe0 :: path where
  "exe0 = [''opt'', ''app'']"

definition world0 :: world where
  "world0 =
     \<lparr>files = [exe0 \<mapsto> \<lparr>content = [1, 2, 3], mode = 7 * 64, hidden = False\<rparr>],
      trace = [],
      executable = exe0,
      symlinks = (\<lambda>p. p),
      umask = 0,
      fault = (\<lambda>n op. None),
      short_write = (\<lambda>n. 1),
      http = (\<lambda>url.
        if url = ''http://updates.example.com/app/linux-amd64.json'' then (200, Reader [1] None)
        else if url = ''http://updates.example.com/app/1.2.0/linux-amd64.zst'' then (200, Reader [7, 8, 9] None)
        else (404, Reader [] None)),
      json_Decode = (\<lambda>r i. (None, \<lparr>Version = ''1.2.0''\<rparr>)),
      zstd_Decode = (\<lambda>r. case r of Reader b e \<Rightarrow> (case e of None \<Rightarrow> Inr b | Some x \<Rightarrow> Inl x)),
      GOOS = ''linux'',
      GOARCH = ''amd64''\<rparr>"

text \<open>
  The same world in which each call listed in \<open>faults\<close> fails with the error listed for it,
  whenever it is made.  A write that fails has written one byte.
\<close>

definition world_failing :: "(sysop \<times> error) list \<Rightarrow> world" where
  "world_failing faults = world0\<lparr>fault := (\<lambda>n op. map_of faults op)\<rparr>"

definition world_no_executable :: world where
  "world_no_executable = world_failing [(Executable, OSError ''no executable'')]"

definition world_copy_fails :: world where
  "world_copy_fails =
     world_failing [(Write (newPath_of exe0) [7, 8, 9], OSError ''no space left on device'')]"

definition world_evacuate_fails :: world where
  "world_evacuate_fails = world_failing [(Rename exe0 (oldPath_of exe0), OSError ''access denied'')]"

definition world_swap_fails :: world where
  "world_swap_fails =
     world_failing [(Rename (newPath_of exe0) exe0, OSError ''promote''),
                    (Rename (oldPath_of exe0) exe0, OSError ''recover'')]"

definition world_backup_hidden :: world where
  "world_backup_hidden = world_failing [(Remove (oldPath_of exe0), OSError ''in use'')]"

definition world_backup_stuck :: world where
  "world_backup_stuck =
     world_failing [(Remove (oldPath_of exe0), OSError ''in use''),
                    (SetFileAttributesW (oldPath_of exe0) 2, OSError ''access denied'')]"

text \<open>
  The same world started through a symbolic link: \<^verbatim>\<open>os.Executable\<close> reports
  \<^verbatim>\<open>/usr/bin/app\<close>, which links to \<^verbatim>\<open>/opt/app\<close>.
\<close>

definition link0 :: path where
  "link0 = [''usr'', ''bin'', ''app'']"

definition world_link :: world where
  "world_link =
     world0\<lparr>files := [exe0 \<mapsto> \<lparr>content = [1, 2, 3], mode = 7 * 64, hidden = False\<rparr>,
                       link0 \<mapsto> \<lparr>content = [], mode = 7 * 64 + 7 * 8 + 7, hidden = False\<rparr>],
            executable := link0,
            symlinks := (\<lambda>p. if p = link0 then exe0 else p)\<rparr>"

text \<open>A fresh session at version 1.1.0, one at the version of the manifest, and one at \<^verbatim>\<open>dev\<close>.\<close>

definition updater0 :: Updater where
  "updater0 =
     \<lparr>CurrentVersion = ''1.1.0'', ApiURL = ''http://updates.example.com/'', CmdName = ''app'',
      CheckTime = 24, RandomizeTime = 0, Requester = None, Info = \<lparr>Version = []\<rparr>,
      OnSuccessfulUpdate = None\<rparr>"

definition updater_current :: Updater where
  "updater_current = updater0\<lparr>CurrentVersion := ''1.2.0''\<rparr>"

definition updater_dev :: Updater where
  "updater_dev = updater0\<lparr>CurrentVersion := ''dev''\<rparr>"

section \<open>Basic facts\<close>

subsection \<open>The three paths of a transaction are distinct\<close>

lemma newPath_neq: "newPath_of p \<noteq> p"
proof
  assume eq: "newPath_of p = p"
  then have ne: "p \<noteq> []"
    by (auto simp: newPath_of_def filepath_Join_def)
  from eq have "last (newPath_of p) = last p" by simp
  with ne have "''.'' @ last p @ ''.new'' = last p"
    by (simp add: newPath_of_def filepath_Join_def filepath_Base_def split: list.splits)
  then have "length (''.'' @ last p @ ''.new'') = length (last p)" by simp
  then show False by simp
qed

lemma oldPath_neq: "oldPath_of p \<noteq> p"
proof
  assume eq: "oldPath_of p = p"
  then have ne: "p \<noteq> []"
    by (auto simp: oldPath_of_def filepath_Join_def)
  from eq have "last (oldPath_of p) = last p" by simp
  with ne have "''.'' @ last p @ ''.old'' = last p"
    by (simp add: oldPath_of_def filepath_Join_def filepath_Base_def split: list.splits)
  then have "length (''.'' @ last p @ ''.old'') = length (last p)" by simp
  then show False by simp
qed

lemma newPath_neq_oldPath: "newPath_of p \<noteq> oldPath_of p"
  by (auto simp: newPath_of_def oldPath_of_def filepath_Join_def)

subsection \<open>What one call does to the trace and to the files\<close>

lemma syscall_frame:
  assumes "syscall op w = (r, w')"
  shows "trace w' = trace w @ [(op, r)]" "executable w' = executable w" "symlinks w' = symlinks w"
    "umask w' = umask w" "fault w' = fault w" "short_write w' = short_write w" "http w' = http w"
    "json_Decode w' = json_Decode w" "zstd_Decode w' = zstd_Decode w" "GOOS w' = GOOS w" "GOARCH w' = GOARCH w"
  using assms by (auto simp: syscall_def Let_def split: option.splits prod.splits)

lemma os_Executable_D:
  "os_Executable w = (r, w') \<Longrightarrow>
     trace w' = trace w @ [(Executable, case r of Inl e \<Rightarrow> Some e | Inr p \<Rightarrow> None)] \<and>
     files w' = files w \<and> executable w' = executable w \<and> umask w' = umask w \<and>
     GOOS w' = GOOS w \<and> GOARCH w' = GOARCH w \<and>
     (case r of Inl e \<Rightarrow> True | Inr p \<Rightarrow> p = executable w)"
  by (auto simp: os_Executable_def syscall_def Let_def split: option.splits prod.splits sum.splits)

lemma os_OpenFile_D:
  "os_OpenFile p m w = (r, w') \<Longrightarrow>
     trace w' = trace w @ [(OpenFile p m, r)] \<and> executable w' = executable w \<and>
     files w' = (case r of Some e \<Rightarrow> files w
        | None \<Rightarrow> (files w)(p \<mapsto> (case files w p of
              None \<Rightarrow> \<lparr>content = [], mode = m AND NOT (umask w), hidden = False\<rparr>
            | Some f \<Rightarrow> f\<lparr>content := []\<rparr>)))"
  by (auto simp: os_OpenFile_def syscall_def Let_def split: option.splits prod.splits sum.splits)

lemma io_Copy_D:
  assumes "io_Copy p b w = (r, w')"
  shows "trace w' = trace w @ [(Write p b, r)] \<and> executable w' = executable w \<and>
     files w' = (case files w p of
        None \<Rightarrow> files w
      | Some f \<Rightarrow> (files w)(p \<mapsto> f\<lparr>content := content f @
            (if r = None then b else take (short_write w (length (trace w))) b)\<rparr>)) \<and>
     (r = None \<longrightarrow> files w p \<noteq> None)"
proof (cases "fault w (length (trace w)) (Write p b)")
  case None
  with assms show ?thesis
    by (cases "files w p") (auto simp: io_Copy_def syscall_def Let_def)
next
  case (Some e)
  with assms have "r = Some e"
    and "w' = w\<lparr>files := failed_effect (Write p b) (short_write w (length (trace w))) w,
                 trace := trace w @ [(Write p b, Some e)]\<rparr>"
    by (auto simp: io_Copy_def syscall_def Let_def)
  then show ?thesis
    by (cases "files w p") simp_all
qed

lemma os_Remove_D:
  "os_Remove p w = (r, w') \<Longrightarrow>
     trace w' = trace w @ [(Remove p, r)] \<and> executable w' = executable w \<and>
     files w' = (case r of Some e \<Rightarrow> files w | None \<Rightarrow> (files w)(p := None))"
  by (auto simp: os_Remove_def syscall_def Let_def split: option.splits prod.splits sum.splits)

lemma os_Rename_D:
  "os_Rename src dst w = (r, w') \<Longrightarrow>
     trace w' = trace w @ [(Rename src dst, r)] \<and> executable w' = executable w \<and>
     files w' = (case r of Some e \<Rightarrow> files w
        | None \<Rightarrow> ((files w)(src := None))(dst := files w src)) \<and>
     (r = None \<longrightarrow> files w src \<noteq> None)"
  by (auto simp: os_Rename_def syscall_def Let_def split: option.splits prod.splits sum.splits)

lemma hideFile_D:
  "hideFile p w = (r, w') \<Longrightarrow>
     executable w' = executable w \<and>
     files w' = (case r of Some e \<Rightarrow> files w
        | None \<Rightarrow> (files w)(p := map_option (\<lambda>f. f\<lparr>hidden := True\<rparr>) (files w p))) \<and>
     (r = None \<longrightarrow> files w p \<noteq> None) \<and>
     (if has_NUL p then r = Some EINVAL \<and> trace w' = trace w
      else trace w' = trace w @ [(SetFileAttributesW p 2, r)])"
  by (auto simp: hideFile_def syscall_def Let_def split: option.splits prod.splits sum.splits if_splits)

lemma os_Executable_T:
  "os_Executable w = (r, w') \<Longrightarrow>
     trace w' = trace w @ [(Executable, case r of Inl e \<Rightarrow> Some e | Inr p \<Rightarrow> None)] \<and>
     executable w' = executable w \<and> (case r of Inl e \<Rightarrow> True | Inr p \<Rightarrow> p = executable w)"
  by (auto dest!: os_Executable_D)

lemma os_OpenFile_T:
  "os_OpenFile p m w = (r, w') \<Longrightarrow>
     trace w' = trace w @ [(OpenFile p m, r)] \<and> executable w' = executable w"
  by (auto dest!: os_OpenFile_D)

lemma io_Copy_T:
  "io_Copy p b w = (r, w') \<Longrightarrow>
     trace w' = trace w @ [(Write p b, r)] \<and> executable w' = executable w"
  by (auto dest!: io_Copy_D)

lemma os_Remove_T:
  "os_Remove p w = (r, w') \<Longrightarrow>
     trace w' = trace w @ [(Remove p, r)] \<and> executable w' = executable w"
  by (auto dest!: os_Remove_D)

lemma os_Rename_T:
  "os_Rename src dst w = (r, w') \<Longrightarrow>
     trace w' = trace w @ [(Rename src dst, r)] \<and> executable w' = executable w"
  by (auto dest!: os_Rename_D)

lemma hideFile_T:
  "hideFile p w = (r, w') \<Longrightarrow>
     executable w' = executable w \<and>
     trace w' = trace w @ (if has_NUL p then [] else [(SetFileAttributesW p 2, r)]) \<and>
     (has_NUL p \<longrightarrow> r = Some EINVAL)"
  by (auto dest!: hideFile_D split: if_splits)

lemmas prim_T = os_Executable_T os_OpenFile_T io_Copy_T os_Remove_T os_Rename_T hideFile_T

lemmas prim_D = os_Executable_D os_OpenFile_D io_Copy_D os_Remove_D os_Rename_D hideFile_D
lemmas path_neq = newPath_neq oldPath_neq newPath_neq_oldPath newPath_neq [symmetric] oldPath_neq [symmetric]
   newPath_neq_oldPath [symmetric]

subsection \<open>The runs of \<open>fromStream\<close>\<close>

lemma fromStream_elim [consumes 1, case_names exe_fail read_fail open_fail evacuate_fail promote_fail removed kept]:
  assumes "fromStream rd w = (err, errRecover, w')"
  obtains
    e where "os_Executable w = (Inl e, w')" "err = Some e" "errRecover = None"
  | p b e where "os_Executable w = (Inr p, w')" "io_ReadAll rd = (b, Some e)"
      "err = Some e" "errRecover = None"
  | p b w1 e where "os_Executable w = (Inr p, w1)" "io_ReadAll rd = (b, None)"
      "os_OpenFile (newPath_of p) perm_0755 w1 = (Some e, w')" "err = Some e" "errRecover = None"
  | p b w1 w2 rc w3 rr w4 e where "os_Executable w = (Inr p, w1)" "io_ReadAll rd = (b, None)"
      "os_OpenFile (newPath_of p) perm_0755 w1 = (None, w2)"
      "io_Copy (newPath_of p) b w2 = (rc, w3)"
      "os_Remove (oldPath_of p) w3 = (rr, w4)"
      "os_Rename p (oldPath_of p) w4 = (Some e, w')" "err = Some e" "errRecover = None"
  | p b w1 w2 rc w3 rr w4 w5 e w6 where "os_Executable w = (Inr p, w1)" "io_ReadAll rd = (b, None)"
      "os_OpenFile (newPath_of p) perm_0755 w1 = (None, w2)"
      "io_Copy (newPath_of p) b w2 = (rc, w3)"
      "os_Remove (oldPath_of p) w3 = (rr, w4)"
      "os_Rename p (oldPath_of p) w4 = (None, w5)"
      "os_Rename (newPath_of p) p w5 = (Some e, w6)"
      "os_Rename (oldPath_of p) p w6 = (errRecover, w')" "err = Some e"
  | p b w1 w2 rc w3 rr w4 w5 w6 where "os_Executable w = (Inr p, w1)" "io_ReadAll rd = (b, None)"
      "os_OpenFile (newPath_of p) perm_0755 w1 = (None, w2)"
      "io_Copy (newPath_of p) b w2 = (rc, w3)"
      "os_Remove (oldPath_of p) w3 = (rr, w4)"
      "os_Rename p (oldPath_of p) w4 = (None, w5)"
      "os_Rename (newPath_of p) p w5 = (None, w6)"
      "os_Remove (oldPath_of p) w6 = (None, w')" "err = None" "errRecover = None"
  | p b w1 w2 rc w3 rr w4 w5 w6 e w7 rh where "os_Executable w = (Inr p, w1)" "io_ReadAll rd = (b, None)"
      "os_OpenFile (newPath_of p) perm_0755 w1 = (None, w2)"
      "io_Copy (newPath_of p) b w2 = (rc, w3)"
      "os_Remove (oldPath_of p) w3 = (rr, w4)"
      "os_Rename p (oldPath_of p) w4 = (None, w5)"
      "os_Rename (newPath_of p) p w5 = (None, w6)"
      "os_Remove (oldPath_of p) w6 = (Some e, w7)"
      "hideFile (oldPath_of p) w7 = (rh, w')" "err = None" "errRecover = None"
  using assms unfolding fromStream_def Let_def
  by (auto split: prod.splits sum.splits option.splits)

subsection \<open>Fetching\<close>

lemma new_events_append: "trace w' = trace w @ xs \<Longrightarrow> new_events w w' = xs"
  by (simp add: new_events_def)

lemma fetch_all:
  assumes "fetch u url w = (r, w')"
  shows "(\<exists>e. trace w' = trace w @ [(Fetch url, e)] \<and> (snd r = None \<longrightarrow> e = None)) \<and>
    files w' = files w \<and> executable w' = executable w \<and>
    GOOS w' = GOOS w \<and> GOARCH w' = GOARCH w \<and> umask w' = umask w"
proof (cases "Requester u")
  case None
  with assms show ?thesis
    by (auto simp: fetch_def HTTPRequester_Fetch_def syscall_def Let_def
        split: option.splits prod.splits if_splits)
next
  case (Some rq)
  obtain rc e where rq: "rq url = (rc, e)" by (cases "rq url")
  from Some assms have "w' = w\<lparr>trace := trace w @ [(Fetch url, e)]\<rparr>"
    and "snd r = None \<longrightarrow> e = None"
    by (auto simp: fetch_def Requester_Fetch_def rq split: option.splits)
  then show ?thesis by simp
qed

lemma fetch_T:
  assumes "fetch u url w = (r, w')"
  shows "\<exists>e. trace w' = trace w @ [(Fetch url, e)] \<and> (snd r = None \<longrightarrow> e = None)"
    and "files w' = files w" and "executable w' = executable w"
    and "GOOS w' = GOOS w" and "GOARCH w' = GOARCH w" and "umask w' = umask w"
  using fetch_all [OF assms] by blast+

lemma FetchInfo_T:
  assumes "FetchInfo u w = (u', r, w')"
  shows "\<exists>e. trace w' = trace w @
           [(Fetch (ApiURL u @ url_QueryEscape (CmdName u) @ ''/'' @ url_QueryEscape (plat w) @ ''.json''), e)]
           \<and> (r = None \<longrightarrow> e = None)"
    and "files w' = files w" and "executable w' = executable w"
    and "GOOS w' = GOOS w" and "GOARCH w' = GOARCH w" and "umask w' = umask w"
    and "u' = u\<lparr>Info := Info u'\<rparr>"
  using assms unfolding FetchInfo_def
  by (auto split: option.splits prod.splits dest: fetch_T)

lemma fetchFullBin_T:
  assumes "fetchFullBin u w = (r, w')"
  shows "\<exists>e. trace w' = trace w @
           [(Fetch (ApiURL u @ url_QueryEscape (CmdName u) @ ''/'' @ url_QueryEscape (Version (Info u))
                      @ ''/'' @ url_QueryEscape (plat w) @ ''.zst''), e)]
           \<and> ((\<exists>bin. r = Inr bin) \<longrightarrow> e = None)"
    and "files w' = files w" and "executable w' = executable w"
    and "GOOS w' = GOOS w" and "GOARCH w' = GOARCH w" and "umask w' = umask w"
  using assms unfolding fetchFullBin_def fetchBin_def
  by (auto split: option.splits prod.splits sum.splits dest: fetch_T)

lemma os_Open_T:
  "os_Open p w = (r, w') \<Longrightarrow>
     trace w' = trace w @ [(Open p, r)] \<and> files w' = files w \<and> executable w' = executable w \<and>
     GOOS w' = GOOS w \<and> GOARCH w' = GOARCH w \<and> umask w' = umask w"
  by (auto simp: os_Open_def syscall_def Let_def split: option.splits prod.splits)

lemma resolve_T:
  "resolve p w = (p', w') \<Longrightarrow>
     (\<exists>e. trace w' = trace w @ [(EvalSymlinks p, e)]) \<and> files w' = files w \<and>
     executable w' = executable w \<and> GOOS w' = GOOS w \<and> GOARCH w' = GOARCH w \<and> umask w' = umask w"
  by (auto simp: resolve_def filepath_EvalSymlinks_def syscall_def Let_def
      split: option.splits prod.splits sum.splits)

subsection \<open>Runs of the transaction and of the installer\<close>

lemma new_events_trans:
  "trace w1 = trace w @ xs \<Longrightarrow> trace w2 = trace w1 @ ys \<Longrightarrow> new_events w w2 = xs @ ys"
  by (simp add: new_events_def)

lemma fromStream_T:
  assumes "fromStream rd w = (err, errRecover, w')"
  shows "trace w' = trace w @ new_events w w' \<and> executable w' = executable w"
  using assms
  by (cases rule: fromStream_elim) (auto dest!: prim_T simp: new_events_def)

lemma fromStream_requests:
  assumes "fromStream rd w = (err, errRecover, w')"
  shows "requests (new_events w w') = []"
  using assms
  by (cases rule: fromStream_elim) (auto dest!: prim_T simp: new_events_def requests_def)

lemma install_elim [consumes 1, case_names open_fail fetch_fail swap]:
  assumes "install u path w = (u', res, w')"
  obtains
    e where "os_Open path w = (Some e, w')" "res = Some e"
  | w1 e where "os_Open path w = (None, w1)" "fetchFullBin u w1 = (Inl e, w')" "res = Some e"
  | w1 bin w2 err errRecover w3 where "os_Open path w = (None, w1)" "fetchFullBin u w1 = (Inr bin, w2)"
      "fromStream (bytes_NewBuffer bin) w2 = (err, errRecover, w3)"
      "res = (case errRecover of Some er \<Rightarrow> Some (Errorf_update_and_recovery err er) | None \<Rightarrow> err)"
      "w' = (if err = None \<and> errRecover = None
             then (case OnSuccessfulUpdate u of Some cb \<Rightarrow> run_callback cb w3 | None \<Rightarrow> w3)
             else w3)"
  using assms unfolding install_def
  by (auto split: prod.splits sum.splits option.splits)

lemma Update_prefix:
  assumes "os_Executable w = (Inr p, w1)" and "resolve p w1 = (p', w2)"
  shows "\<exists>e. trace w2 = trace w @ [(Executable, None), (EvalSymlinks p, e)]"
    and "executable w2 = executable w" and "files w2 = files w"
    and "GOOS w2 = GOOS w" and "GOARCH w2 = GOARCH w"
  using assms by (auto dest!: os_Executable_D resolve_T)

lemma Dir_newPath: "filepath_Dir (newPath_of p) = filepath_Dir p"
  by (simp add: newPath_of_def filepath_Join_def filepath_Dir_def)

lemma staged:
  assumes "os_Executable w = (Inr p, w1)"
    and "os_OpenFile (newPath_of p) m w1 = (None, w2)"
    and "io_Copy (newPath_of p) b w2 = (rc, w3)"
    and "os_Remove (oldPath_of p) w3 = (rr, w4)"
  shows "\<exists>f. files w4 (newPath_of p) = Some f \<and> (rc = None \<longrightarrow> content f = b) \<and>
           (files w (newPath_of p) = None \<longrightarrow> mode f = m AND NOT (umask w))"
proof -
  from assms(1) have f1: "files w1 = files w" "umask w1 = umask w"
    by (auto dest!: os_Executable_D)
  from assms(2) obtain f where f2: "files w2 (newPath_of p) = Some f" "content f = []"
    "files w1 (newPath_of p) = None \<longrightarrow> mode f = m AND NOT (umask w1)"
    by (auto dest!: os_OpenFile_D split: option.splits)
  from assms(3) f2 obtain g where f3: "files w3 (newPath_of p) = Some g" "rc = None \<longrightarrow> content g = b"
    "mode g = mode f"
    by (auto dest!: io_Copy_D)
  from assms(4) f3 have "files w4 (newPath_of p) = Some g"
    by (cases rr) (auto dest!: os_Remove_D simp: path_neq)
  with f1 f2 f3 show ?thesis by auto
qed

subsection \<open>The example sessions, run\<close>

text \<open>
  The definitions that a run in one of the example worlds unfolds, and the outcome of the
  runs used below.
\<close>

lemmas prim_defs = os_Executable_def os_OpenFile_def io_Copy_def os_Remove_def os_Rename_def os_Open_def
  filepath_EvalSymlinks_def hideFile_def has_NUL_def syscall_def Let_def

lemmas path_defs = newPath_of_def oldPath_of_def filepath_Join_def filepath_Dir_def filepath_Base_def
  exe0_def link0_def

lemmas fetch_defs = FetchInfo_def fetchBin_def fetchFullBin_def fetch_def HTTPRequester_Fetch_def
  url_QueryEscape_def escape_byte_def unreserved_def plat_def

lemmas world_defs = world0_def world_failing_def world_no_executable_def world_copy_fails_def
  world_evacuate_fails_def world_swap_fails_def world_backup_hidden_def world_backup_stuck_def
  world_link_def updater0_def updater_current_def updater_dev_def

lemma world0_run:
  "fromStream (bytes_NewBuffer [7, 8, 9]) world0 =
     (None, None,
      world0
        \<lparr>files := [exe0 \<mapsto> \<lparr>content = [7, 8, 9], mode = perm_0755, hidden = False\<rparr>],
         trace := [(Executable, None),
                   (OpenFile (newPath_of exe0) perm_0755, None),
                   (Write (newPath_of exe0) [7, 8, 9], None),
                   (Remove (oldPath_of exe0), Some ErrNotExist),
                   (Rename exe0 (oldPath_of exe0), None),
                   (Rename (newPath_of exe0) exe0, None),
                   (Remove (oldPath_of exe0), None)]\<rparr>)"
  by (simp add: fromStream_def bytes_NewBuffer_def perm_0755_def prim_defs path_defs world_defs)

lemma world0_facts: "executable world0 = exe0" "trace world0 = []" "umask world0 = 0"
  "files world0 (newPath_of exe0) = None"
  by (simp_all add: world_defs path_defs)

lemma backup_hidden_run:
  "fromStream (bytes_NewBuffer [7, 8, 9]) world_backup_hidden =
     (None, None,
      world_backup_hidden
        \<lparr>files := [exe0 \<mapsto> \<lparr>content = [7, 8, 9], mode = perm_0755, hidden = False\<rparr>,
                   oldPath_of exe0 \<mapsto> \<lparr>content = [1, 2, 3], mode = 7 * 64, hidden = True\<rparr>],
         trace := [(Executable, None),
                   (OpenFile (newPath_of exe0) perm_0755, None),
                   (Write (newPath_of exe0) [7, 8, 9], None),
                   (Remove (oldPath_of exe0), Some (OSError ''in use'')),
                   (Rename exe0 (oldPath_of exe0), None),
                   (Rename (newPath_of exe0) exe0, None),
                   (Remove (oldPath_of exe0), Some (OSError ''in use'')),
                   (SetFileAttributesW (oldPath_of exe0) 2, None)]\<rparr>)"
  by (simp add: fromStream_def bytes_NewBuffer_def perm_0755_def prim_defs path_defs world_defs)

lemma exe_backup_hidden: "executable world_backup_hidden = exe0" "trace world_backup_hidden = []"
  by (simp_all add: world_defs)

lemma backup_stuck_run:
  "fromStream (bytes_NewBuffer [7, 8, 9]) world_backup_stuck =
     (None, None,
      world_backup_stuck
        \<lparr>files := [oldPath_of exe0 \<mapsto> \<lparr>content = [1, 2, 3], mode = 7 * 64, hidden = False\<rparr>,
                   exe0 \<mapsto> \<lparr>content = [7, 8, 9], mode = perm_0755, hidden = False\<rparr>],
         trace := [(Executable, None),
                   (OpenFile (newPath_of exe0) perm_0755, None),
                   (Write (newPath_of exe0) [7, 8, 9], None),
                   (Remove (oldPath_of exe0), Some (OSError ''in use'')),
                   (Rename exe0 (oldPath_of exe0), None),
                   (Rename (newPath_of exe0) exe0, None),
                   (Remove (oldPath_of exe0), Some (OSError ''in use'')),
                   (SetFileAttributesW (oldPath_of exe0) 2, Some (OSError ''access denied''))]\<rparr>)"
  by (simp add: fromStream_def bytes_NewBuffer_def perm_0755_def prim_defs path_defs world_defs)

lemma evacuate_fails_run:
  "fromStream (bytes_NewBuffer [7, 8, 9]) world_evacuate_fails =
     (Some (OSError ''access denied''), None,
      world_evacuate_fails
        \<lparr>files := [exe0 \<mapsto> \<lparr>content = [1, 2, 3], mode = 7 * 64, hidden = False\<rparr>,
                   newPath_of exe0 \<mapsto> \<lparr>content = [7, 8, 9], mode = 7 * 64 + 5 * 8 + 5, hidden = False\<rparr>],
         trace := [(Executable, None),
                   (OpenFile (newPath_of exe0) perm_0755, None),
                   (Write (newPath_of exe0) [7, 8, 9], None),
                   (Remove (oldPath_of exe0), Some ErrNotExist),
                   (Rename exe0 (oldPath_of exe0), Some (OSError ''access denied''))]\<rparr>)"
  by (simp add: fromStream_def bytes_NewBuffer_def perm_0755_def prim_defs path_defs world_defs)

lemma swap_fails_run:
  "Update updater0 world_swap_fails =
     (updater0\<lparr>Info := \<lparr>Version = ''1.2.0''\<rparr>\<rparr>,
      Some (Errorf_update_and_recovery (Some (OSError ''promote'')) (OSError ''recover'')),
      world_swap_fails
        \<lparr>files := [newPath_of exe0 \<mapsto> \<lparr>content = [7, 8, 9], mode = perm_0755, hidden = False\<rparr>,
                   oldPath_of exe0 \<mapsto> \<lparr>content = [1, 2, 3], mode = 7 * 64, hidden = False\<rparr>],
         trace := [(Executable, None), (EvalSymlinks exe0, None),
                   (Fetch ''http://updates.example.com/app/linux-amd64.json'', None),
                   (Open exe0, None),
                   (Fetch ''http://updates.example.com/app/1.2.0/linux-amd64.zst'', None),
                   (Executable, None),
                   (OpenFile (newPath_of exe0) perm_0755, None),
                   (Write (newPath_of exe0) [7, 8, 9], None),
                   (Remove (oldPath_of exe0), Some ErrNotExist),
                   (Rename exe0 (oldPath_of exe0), None),
                   (Rename (newPath_of exe0) exe0, Some (OSError ''promote'')),
                   (Rename (oldPath_of exe0) exe0, Some (OSError ''recover''))]\<rparr>)"
  by (simp add: Update_def resolve_def install_def fromStream_def bytes_NewBuffer_def perm_0755_def
      fetch_defs prim_defs path_defs world_defs)

lemma swap_fails_facts: "executable world_swap_fails = exe0" "trace world_swap_fails = []"
  by (simp_all add: world_defs)

section \<open>The replacement transaction\<close>

text \<open>
  C1.  A failure of the staging write should end \<open>fromStream\<close> with that error before either
  rename, the original untouched.  For the copy it does not: the error of \<^verbatim>\<open>io.Copy\<close> is
  overwritten by the next \<^verbatim>\<open>os.Rename\<close>.  In the world where the write stops after one byte
  with \<^verbatim>\<open>no space left on device\<close>, \<open>fromStream\<close> returns no error at all, both renames are
  made, and the executable is left holding the single byte \<open>[7]\<close>.
\<close>

theorem copy_failure_swallowed:
  "fromStream (bytes_NewBuffer [7, 8, 9]) world_copy_fails =
     (None, None,
      world_copy_fails
        \<lparr>files := [exe0 \<mapsto> \<lparr>content = [7], mode = perm_0755, hidden = False\<rparr>],
         trace := [(Executable, None),
                   (OpenFile (newPath_of exe0) perm_0755, None),
                   (Write (newPath_of exe0) [7, 8, 9], Some (OSError ''no space left on device'')),
                   (Remove (oldPath_of exe0), Some ErrNotExist),
                   (Rename exe0 (oldPath_of exe0), None),
                   (Rename (newPath_of exe0) exe0, None),
                   (Remove (oldPath_of exe0), None)]\<rparr>)"
  by (simp add: fromStream_def bytes_NewBuffer_def perm_0755_def prim_defs path_defs world_defs)

text \<open>
  The other half of the staging holds: when creating the staged file fails, \<open>fromStream\<close>
  returns that error, the files are as they were, and the failed \<^verbatim>\<open>os.OpenFile\<close> is the only
  call made that could have changed one.
\<close>

lemma open_failure_aborts:
  assumes run: "fromStream rd w = (err, errRecover, w')"
    and failed: "(OpenFile q m, Some e) \<in> set (new_events w w')"
  shows "err = Some e \<and> errRecover = None \<and> files w' = files w \<and>
    mutations (new_events w w') = [(OpenFile (newPath_of (executable w)) perm_0755, Some e)]"
  using run
proof (cases rule: fromStream_elim)
  case (open_fail p b w1 e')
  with failed show ?thesis
    by (auto dest!: os_Executable_D os_OpenFile_D simp: new_events_def mutations_def)
qed (use failed in \<open>auto dest!: prim_T simp: new_events_def split: if_splits\<close>)

text \<open>
  C3 as first stated, with the backup "deleted or, if deletion fails, marked hidden", does not
  hold.  When the final \<^verbatim>\<open>os.Remove\<close> of the backup fails and \<^verbatim>\<open>hideFile\<close> fails as well, its error
  is discarded: staging and both renames have succeeded, no error is returned, and the backup
  is still there, not hidden.
\<close>

theorem backup_left_visible:
  "fromStream (bytes_NewBuffer [7, 8, 9]) world_backup_stuck =
     (None, None, world_after (fromStream (bytes_NewBuffer [7, 8, 9]) world_backup_stuck)) \<and>
   (OpenFile (newPath_of exe0) perm_0755, None)
     \<in> set (new_events world_backup_stuck (world_after (fromStream (bytes_NewBuffer [7, 8, 9]) world_backup_stuck))) \<and>
   (Write (newPath_of exe0) [7, 8, 9], None)
     \<in> set (new_events world_backup_stuck (world_after (fromStream (bytes_NewBuffer [7, 8, 9]) world_backup_stuck))) \<and>
   (Rename exe0 (oldPath_of exe0), None)
     \<in> set (new_events world_backup_stuck (world_after (fromStream (bytes_NewBuffer [7, 8, 9]) world_backup_stuck))) \<and>
   (Rename (newPath_of exe0) exe0, None)
     \<in> set (new_events world_backup_stuck (world_after (fromStream (bytes_NewBuffer [7, 8, 9]) world_backup_stuck))) \<and>
   executable world_backup_stuck = exe0 \<and>
   files (world_after (fromStream (bytes_NewBuffer [7, 8, 9]) world_backup_stuck)) (oldPath_of exe0) =
     Some \<lparr>content = [1, 2, 3], mode = 7 * 64, hidden = False\<rparr>"
  by (simp add: backup_stuck_run world_after_def new_events_def)
     (simp add: world_defs path_defs)

text \<open>
  C3 (amended).  For every byte string \<open>B\<close>, a run of \<open>fromStream\<close> on \<open>B\<close> in which the staged
  file is created and written and both renames succeed returns no error and leaves exactly
  \<open>B\<close> at the path of the executable and no staged file; the backup is deleted or, if the
  deletion fails, marked hidden, unless \<^verbatim>\<open>hideFile\<close> fails too (the path has a NUL byte, or
  \<^verbatim>\<open>SetFileAttributesW\<close> fails), in which case it remains in place.
\<close>

theorem successful_swap:
  assumes run: "fromStream (bytes_NewBuffer B) w = (err, errRecover, w')"
    and staging: "(OpenFile (newPath_of (executable w)) perm_0755, None) \<in> set (new_events w w')"
      "(Write (newPath_of (executable w)) B, None) \<in> set (new_events w w')"
    and renames: "(Rename (executable w) (oldPath_of (executable w)), None) \<in> set (new_events w w')"
      "(Rename (newPath_of (executable w)) (executable w), None) \<in> set (new_events w w')"
  shows "err = None \<and> errRecover = None \<and>
     (\<exists>f. files w' (executable w) = Some f \<and> content f = B) \<and>
     files w' (newPath_of (executable w)) = None \<and>
     (files w' (oldPath_of (executable w)) = None \<or>
      (\<exists>f. files w' (oldPath_of (executable w)) = Some f \<and>
         (hidden f \<or> has_NUL (oldPath_of (executable w)) \<or>
          (\<exists>e. (SetFileAttributesW (oldPath_of (executable w)) 2, Some e) \<in> set (new_events w w')))))"
  using run
proof (cases rule: fromStream_elim)
  case (exe_fail e)
  with staging show ?thesis by (auto dest!: prim_T simp: new_events_def)
next
  case (read_fail p b e)
  with staging show ?thesis by (auto dest!: prim_T simp: new_events_def)
next
  case (open_fail p b w1 e)
  with staging show ?thesis by (auto dest!: prim_T simp: new_events_def)
next
  case (evacuate_fail p b w1 w2 rc w3 rr w4 e)
  with renames show ?thesis by (auto dest!: prim_T simp: new_events_def path_neq)
next
  case (promote_fail p b w1 w2 rc w3 rr w4 w5 e w6)
  with renames show ?thesis by (auto dest!: prim_T simp: new_events_def path_neq)
next
  case (removed p b w1 w2 rc w3 rr w4 w5 w6)
  let ?new = "newPath_of p" and ?old = "oldPath_of p"
  have p: "p = executable w" and b: "b = B"
    using removed(1,2) by (auto dest!: os_Executable_T simp: bytes_NewBuffer_def)
  have ev: "new_events w w' = [(Executable, None), (OpenFile ?new perm_0755, None), (Write ?new b, rc),
      (Remove ?old, rr), (Rename p ?old, None), (Rename ?new p, None), (Remove ?old, None)]"
    using removed by (auto dest!: prim_T simp: new_events_def)
  with staging(2) have rc: "rc = None" by (auto simp: p path_neq)
  from staged [OF removed(1,3,4,5)] rc b obtain f where
    f4: "files w4 ?new = Some f" "content f = B" by auto
  have f5: "files w5 ?new = Some f"
    using removed(6) f4 by (auto dest!: os_Rename_D simp: path_neq)
  have f6: "files w6 p = Some f" "files w6 ?new = None"
    using removed(7) f5 by (auto dest!: os_Rename_D simp: path_neq)
  have f7: "files w' p = Some f" "files w' ?new = None" "files w' ?old = None"
    using removed(8) f6 by (auto dest!: os_Remove_D simp: path_neq)
  show ?thesis using f7 f4(2) removed(9,10) by (simp add: p)
next
  case (kept p b w1 w2 rc w3 rr w4 w5 w6 e w7 rh)
  let ?new = "newPath_of p" and ?old = "oldPath_of p"
  have p: "p = executable w" and b: "b = B"
    using kept(1,2) by (auto dest!: os_Executable_T simp: bytes_NewBuffer_def)
  have ev: "new_events w w' = [(Executable, None), (OpenFile ?new perm_0755, None), (Write ?new b, rc),
      (Remove ?old, rr), (Rename p ?old, None), (Rename ?new p, None), (Remove ?old, Some e)]
      @ (if has_NUL ?old then [] else [(SetFileAttributesW ?old 2, rh)])"
    using kept by (auto dest!: prim_T simp: new_events_def)
  with staging(2) have rc: "rc = None" by (auto simp: p path_neq split: if_splits)
  from staged [OF kept(1,3,4,5)] rc b obtain f where
    f4: "files w4 ?new = Some f" "content f = B" by auto
  obtain g where f5: "files w5 ?new = Some f" "files w5 ?old = Some g"
    using kept(6) f4 by (auto dest!: os_Rename_D simp: path_neq)
  have f6: "files w6 p = Some f" "files w6 ?new = None" "files w6 ?old = Some g"
    using kept(7) f5 by (auto dest!: os_Rename_D simp: path_neq)
  have f7: "files w7 p = Some f" "files w7 ?new = None" "files w7 ?old = Some g"
    using kept(8) f6 by (auto dest!: os_Remove_D simp: path_neq)
  have f8: "files w' p = Some f" "files w' ?new = None"
    "files w' ?old = Some (if rh = None then g\<lparr>hidden := True\<rparr> else g)"
    using kept(9) f7 by (cases rh; auto dest!: hideFile_D simp: path_neq)+
  have "hidden (if rh = None then g\<lparr>hidden := True\<rparr> else g) \<or> has_NUL ?old \<or>
        (\<exists>e. (SetFileAttributesW ?old 2, Some e) \<in> set (new_events w w'))"
    by (cases rh) (auto simp: ev)
  then show ?thesis using f8 f4(2) kept(10,11) by (simp add: p)
qed

theorem successful_swap_witness:
  "(OpenFile (newPath_of exe0) perm_0755, None)
     \<in> set (new_events world_backup_hidden (world_after (fromStream (bytes_NewBuffer [7, 8, 9]) world_backup_hidden))) \<and>
   (Write (newPath_of exe0) [7, 8, 9], None)
     \<in> set (new_events world_backup_hidden (world_after (fromStream (bytes_NewBuffer [7, 8, 9]) world_backup_hidden))) \<and>
   (Rename exe0 (oldPath_of exe0), None)
     \<in> set (new_events world_backup_hidden (world_after (fromStream (bytes_NewBuffer [7, 8, 9]) world_backup_hidden))) \<and>
   (Rename (newPath_of exe0) exe0, None)
     \<in> set (new_events world_backup_hidden (world_after (fromStream (bytes_NewBuffer [7, 8, 9]) world_backup_hidden))) \<and>
   fromStream (bytes_NewBuffer [7, 8, 9]) world_backup_hidden =
     (None, None, world_after (fromStream (bytes_NewBuffer [7, 8, 9]) world_backup_hidden)) \<and>
   (\<exists>f. files (world_after (fromStream (bytes_NewBuffer [7, 8, 9]) world_backup_hidden)) exe0 = Some f \<and>
        content f = [7, 8, 9]) \<and>
   files (world_after (fromStream (bytes_NewBuffer [7, 8, 9]) world_backup_hidden)) (newPath_of exe0) = None \<and>
   files (world_after (fromStream (bytes_NewBuffer [7, 8, 9]) world_backup_hidden)) (oldPath_of exe0) =
     Some \<lparr>content = [1, 2, 3], mode = 7 * 64, hidden = True\<rparr>"
proof -
  let ?w' = "world_after (fromStream (bytes_NewBuffer [7, 8, 9]) world_backup_hidden)"
  have ev: "new_events world_backup_hidden ?w' =
     [(Executable, None), (OpenFile (newPath_of exe0) perm_0755, None),
      (Write (newPath_of exe0) [7, 8, 9], None), (Remove (oldPath_of exe0), Some (OSError ''in use'')),
      (Rename exe0 (oldPath_of exe0), None), (Rename (newPath_of exe0) exe0, None),
      (Remove (oldPath_of exe0), Some (OSError ''in use'')), (SetFileAttributesW (oldPath_of exe0) 2, None)]"
    by (simp add: backup_hidden_run world_after_def new_events_def exe_backup_hidden)
  have run: "fromStream (bytes_NewBuffer [7, 8, 9]) world_backup_hidden = (None, None, ?w')"
    by (simp add: backup_hidden_run world_after_def)
  have old: "files ?w' (oldPath_of exe0) = Some \<lparr>content = [1, 2, 3], mode = 7 * 64, hidden = True\<rparr>"
    by (simp add: backup_hidden_run world_after_def path_defs)
  have h: "(OpenFile (newPath_of (executable world_backup_hidden)) perm_0755, None) \<in> set (new_events world_backup_hidden ?w')"
    "(Write (newPath_of (executable world_backup_hidden)) [7, 8, 9], None) \<in> set (new_events world_backup_hidden ?w')"
    "(Rename (executable world_backup_hidden) (oldPath_of (executable world_backup_hidden)), None) \<in> set (new_events world_backup_hidden ?w')"
    "(Rename (newPath_of (executable world_backup_hidden)) (executable world_backup_hidden), None) \<in> set (new_events world_backup_hidden ?w')"
    by (simp_all add: ev exe_backup_hidden)
  from successful_swap [OF run h] have
    "(\<exists>f. files ?w' exe0 = Some f \<and> content f = [7, 8, 9]) \<and> files ?w' (newPath_of exe0) = None"
    by (simp add: exe_backup_hidden)
  with h run old show ?thesis by (simp add: exe_backup_hidden)
qed

text \<open>
  C9 as first stated, with the mode of the staged file matching that of the original, does not
  hold.  The mode of the staged file is not taken from the original: next to an executable of mode
  \<^verbatim>\<open>0700\<close> the staged file is created with mode \<^verbatim>\<open>0755\<close>.  (The run is one whose first rename
  fails, so that the staged file is still there to be looked at.)
\<close>

theorem staged_mode_differs:
  "executable world_evacuate_fails = exe0 \<and>
   files world_evacuate_fails exe0 = Some \<lparr>content = [1, 2, 3], mode = 7 * 64, hidden = False\<rparr> \<and>
   (OpenFile (newPath_of exe0) perm_0755, None)
     \<in> set (new_events world_evacuate_fails (world_after (fromStream (bytes_NewBuffer [7, 8, 9]) world_evacuate_fails))) \<and>
   files (world_after (fromStream (bytes_NewBuffer [7, 8, 9]) world_evacuate_fails)) (newPath_of exe0) =
     Some \<lparr>content = [7, 8, 9], mode = 7 * 64 + 5 * 8 + 5, hidden = False\<rparr> \<and>
   (7 * 64 + 5 * 8 + 5 :: FileMode) \<noteq> 7 * 64"
  by (simp add: evacuate_fails_run world_after_def new_events_def)
     (simp add: world_defs path_defs)

text \<open>
  C9 (amended).  The staged file is created by \<^verbatim>\<open>os.OpenFile\<close> at \<^verbatim>\<open>.{name}.new\<close> in the directory
  of the executable with the fixed mode \<^verbatim>\<open>0755\<close>, whatever the mode of the executable is: when
  no file of that name was there before, the staged file (at the path of the executable after
  a successful run, at its own path otherwise) has mode \<^verbatim>\<open>0755\<close> less the umask.
\<close>

theorem staged_file_mode:
  assumes run: "fromStream rd w = (err, errRecover, w')"
    and created: "(OpenFile q m, None) \<in> set (new_events w w')"
    and fresh: "files w (newPath_of (executable w)) = None"
  shows "q = newPath_of (executable w) \<and> filepath_Dir q = filepath_Dir (executable w) \<and>
     m = perm_0755 \<and>
     (\<exists>f. files w' (if err = None then executable w else q) = Some f \<and>
          mode f = perm_0755 AND NOT (umask w))"
  using run
proof (cases rule: fromStream_elim)
  case (exe_fail e)
  with created show ?thesis by (auto dest!: prim_T simp: new_events_def)
next
  case (read_fail p b e)
  with created show ?thesis by (auto dest!: prim_T simp: new_events_def)
next
  case (open_fail p b w1 e)
  with created show ?thesis by (auto dest!: prim_T simp: new_events_def)
next
  case (evacuate_fail p b w1 w2 rc w3 rr w4 e)
  have p: "p = executable w" using evacuate_fail(1) by (auto dest!: os_Executable_T)
  have "new_events w w' = [(Executable, None), (OpenFile (newPath_of p) perm_0755, None),
      (Write (newPath_of p) b, rc), (Remove (oldPath_of p), rr), (Rename p (oldPath_of p), Some e)]"
    using evacuate_fail by (auto dest!: prim_T simp: new_events_def)
  with created have q: "q = newPath_of p" "m = perm_0755" by auto
  from staged [OF evacuate_fail(1,3,4,5)] fresh obtain f where
    "files w4 (newPath_of p) = Some f" "mode f = perm_0755 AND NOT (umask w)" by (auto simp: p)
  moreover have "files w' = files w4" using evacuate_fail(6) by (auto dest!: os_Rename_D)
  ultimately show ?thesis using q evacuate_fail(7) by (simp add: p Dir_newPath)
next
  case (promote_fail p b w1 w2 rc w3 rr w4 w5 e w6)
  have p: "p = executable w" using promote_fail(1) by (auto dest!: os_Executable_T)
  have "new_events w w' = [(Executable, None), (OpenFile (newPath_of p) perm_0755, None),
      (Write (newPath_of p) b, rc), (Remove (oldPath_of p), rr), (Rename p (oldPath_of p), None),
      (Rename (newPath_of p) p, Some e), (Rename (oldPath_of p) p, errRecover)]"
    using promote_fail by (auto dest!: prim_T simp: new_events_def)
  with created have q: "q = newPath_of p" "m = perm_0755" by auto
  from staged [OF promote_fail(1,3,4,5)] fresh obtain f where
    f4: "files w4 (newPath_of p) = Some f" "mode f = perm_0755 AND NOT (umask w)" by (auto simp: p)
  have "files w5 (newPath_of p) = Some f"
    using promote_fail(6) f4 by (auto dest!: os_Rename_D simp: path_neq)
  then have "files w6 (newPath_of p) = Some f"
    using promote_fail(7) by (auto dest!: os_Rename_D)
  then have "files w' (newPath_of p) = Some f"
    using promote_fail(8) by (cases errRecover) (auto dest!: os_Rename_D simp: path_neq)
  then show ?thesis using q f4 promote_fail(9) by (simp add: p Dir_newPath)
next
  case (removed p b w1 w2 rc w3 rr w4 w5 w6)
  have p: "p = executable w" using removed(1) by (auto dest!: os_Executable_T)
  have "new_events w w' = [(Executable, None), (OpenFile (newPath_of p) perm_0755, None),
      (Write (newPath_of p) b, rc), (Remove (oldPath_of p), rr), (Rename p (oldPath_of p), None),
      (Rename (newPath_of p) p, None), (Remove (oldPath_of p), None)]"
    using removed by (auto dest!: prim_T simp: new_events_def)
  with created have q: "q = newPath_of p" "m = perm_0755" by auto
  from staged [OF removed(1,3,4,5)] fresh obtain f where
    f4: "files w4 (newPath_of p) = Some f" "mode f = perm_0755 AND NOT (umask w)" by (auto simp: p)
  have "files w5 (newPath_of p) = Some f"
    using removed(6) f4 by (auto dest!: os_Rename_D simp: path_neq)
  then have "files w6 p = Some f"
    using removed(7) by (auto dest!: os_Rename_D)
  then have "files w' p = Some f"
    using removed(8) by (auto dest!: os_Remove_D simp: path_neq)
  then show ?thesis using q f4 removed(9) by (simp add: p Dir_newPath)
next
  case (kept p b w1 w2 rc w3 rr w4 w5 w6 e w7 rh)
  have p: "p = executable w" using kept(1) by (auto dest!: os_Executable_T)
  have "new_events w w' = [(Executable, None), (OpenFile (newPath_of p) perm_0755, None),
      (Write (newPath_of p) b, rc), (Remove (oldPath_of p), rr), (Rename p (oldPath_of p), None),
      (Rename (newPath_of p) p, None), (Remove (oldPath_of p), Some e)]
      @ (if has_NUL (oldPath_of p) then [] else [(SetFileAttributesW (oldPath_of p) 2, rh)])"
    using kept by (auto dest!: prim_T simp: new_events_def)
  with created have q: "q = newPath_of p" "m = perm_0755" by (auto split: if_splits)
  from staged [OF kept(1,3,4,5)] fresh obtain f where
    f4: "files w4 (newPath_of p) = Some f" "mode f = perm_0755 AND NOT (umask w)" by (auto simp: p)
  have "files w5 (newPath_of p) = Some f"
    using kept(6) f4 by (auto dest!: os_Rename_D simp: path_neq)
  then have "files w6 p = Some f"
    using kept(7) by (auto dest!: os_Rename_D)
  then have "files w7 p = Some f"
    using kept(8) by (auto dest!: os_Remove_D)
  then have "files w' p = Some f"
    using kept(9) by (cases rh) (auto dest!: hideFile_D simp: path_neq)
  then show ?thesis using q f4 kept(10) by (simp add: p Dir_newPath)
qed

theorem staged_file_mode_witness:
  "(OpenFile (newPath_of exe0) perm_0755, None)
     \<in> set (new_events world0 (world_after (fromStream (bytes_NewBuffer [7, 8, 9]) world0))) \<and>
   files world0 (newPath_of (executable world0)) = None \<and>
   fst (fromStream (bytes_NewBuffer [7, 8, 9]) world0) = None \<and>
   filepath_Dir (newPath_of exe0) = filepath_Dir (executable world0) \<and>
   (\<exists>f. files (world_after (fromStream (bytes_NewBuffer [7, 8, 9]) world0)) (executable world0) = Some f \<and>
        mode f = perm_0755 AND NOT (umask world0))"
proof -
  let ?w' = "world_after (fromStream (bytes_NewBuffer [7, 8, 9]) world0)"
  have run: "fromStream (bytes_NewBuffer [7, 8, 9]) world0 = (None, None, ?w')"
    by (simp add: world0_run world_after_def)
  have created: "(OpenFile (newPath_of exe0) perm_0755, None) \<in> set (new_events world0 ?w')"
    by (simp add: world0_run world_after_def new_events_def world0_facts)
  have fresh: "files world0 (newPath_of (executable world0)) = None"
    by (simp add: world0_facts)
  have ok: "fst (fromStream (bytes_NewBuffer [7, 8, 9]) world0) = None"
    by (simp add: world0_run)
  from staged_file_mode [OF run created fresh]
  have "filepath_Dir (newPath_of exe0) = filepath_Dir (executable world0) \<and>
     (\<exists>f. files ?w' (executable world0) = Some f \<and> mode f = perm_0755 AND NOT (umask world0))"
    by (simp add: world0_facts(1,3))
  with created fresh ok show ?thesis by blast
qed

text \<open>
  When the promoting rename fails, \<open>fromStream\<close> returns its error as \<^verbatim>\<open>err\<close> and the outcome
  of the recovering rename, the only rename of the backup onto the executable, as
  \<^verbatim>\<open>errRecover\<close>.  The calls \<open>install\<close> makes before \<open>fromStream\<close>, and those \<open>Update\<close> and
  \<open>UpdateForce\<close> make before \<open>install\<close>, rename nothing.
\<close>

lemma fromStream_promote_failed:
  assumes "fromStream rd w = (err, errRecover, w')"
    and "(Rename (newPath_of (executable w)) (executable w), Some e1) \<in> set (new_events w w')"
  shows "err = Some e1 \<and>
    (Rename (oldPath_of (executable w)) (executable w), errRecover) \<in> set (new_events w w') \<and>
    (\<forall>r. (Rename (oldPath_of (executable w)) (executable w), r) \<in> set (new_events w w') \<longrightarrow> r = errRecover)"
  using assms
  by (cases rule: fromStream_elim) (auto dest!: prim_T simp: new_events_def path_neq split: if_splits)

lemma install_promote_failed:
  assumes run: "install u path w = (u', res, w')"
    and promote: "(Rename (newPath_of (executable w)) (executable w), Some e1) \<in> set (new_events w w')"
  shows "\<exists>r. (Rename (oldPath_of (executable w)) (executable w), r) \<in> set (new_events w w') \<and>
    (\<forall>r'. (Rename (oldPath_of (executable w)) (executable w), r') \<in> set (new_events w w') \<longrightarrow> r' = r) \<and>
    res = Some (case r of None \<Rightarrow> e1 | Some e2 \<Rightarrow> Errorf_update_and_recovery (Some e1) e2)"
  using run
proof (cases rule: install_elim)
  case (open_fail e)
  with promote show ?thesis by (auto dest!: os_Open_T simp: new_events_def)
next
  case (fetch_fail w1 e)
  from fetch_fail(2) obtain ev where "trace w' = trace w1 @ [(Fetch
       (ApiURL u @ url_QueryEscape (CmdName u) @ ''/'' @ url_QueryEscape (Version (Info u))
                      @ ''/'' @ url_QueryEscape (plat w1) @ ''.zst''), ev)]"
    using fetchFullBin_T(1) by blast
  with fetch_fail(1) promote show ?thesis by (auto dest!: os_Open_T simp: new_events_def)
next
  case (swap w1 bin w2 err errRecover w3)
  from swap(2) obtain ev where t2: "trace w2 = trace w1 @ [(Fetch
       (ApiURL u @ url_QueryEscape (CmdName u) @ ''/'' @ url_QueryEscape (Version (Info u))
                      @ ''/'' @ url_QueryEscape (plat w1) @ ''.zst''), ev)]"
    and x2: "executable w2 = executable w1"
    using fetchFullBin_T(1,3) by blast
  from swap(1) have t1: "trace w1 = trace w @ [(Open path, None)]" and x1: "executable w1 = executable w"
    by (auto dest!: os_Open_T)
  from swap(3) obtain evs where t3: "trace w3 = trace w2 @ evs" and evs: "new_events w2 w3 = evs"
    by (auto dest!: fromStream_T)
  have "\<exists>post. trace w' = trace w3 @ post \<and> (post = [] \<or> post = [(Callback, None)])"
    using swap(5) by (auto simp: run_callback_def split: option.splits)
  then obtain post where t4: "trace w' = trace w3 @ post" and post: "post = [] \<or> post = [(Callback, None)]"
    by blast
  have ev: "new_events w w' = [(Open path, None), (Fetch
       (ApiURL u @ url_QueryEscape (CmdName u) @ ''/'' @ url_QueryEscape (Version (Info u))
                      @ ''/'' @ url_QueryEscape (plat w1) @ ''.zst''), ev)] @ new_events w2 w3 @ post"
    using t1 t2 t3 t4 evs by (simp add: new_events_append)
  with promote post have "(Rename (newPath_of (executable w2)) (executable w2), Some e1) \<in> set (new_events w2 w3)"
    by (auto simp: x1 x2)
  from fromStream_promote_failed [OF swap(3) this]
  have err: "err = Some e1"
    and rec: "(Rename (oldPath_of (executable w)) (executable w), errRecover) \<in> set (new_events w2 w3)"
    and uniq: "\<forall>r. (Rename (oldPath_of (executable w)) (executable w), r) \<in> set (new_events w2 w3) \<longrightarrow> r = errRecover"
    by (simp_all add: x1 x2)
  have "(Rename (oldPath_of (executable w)) (executable w), errRecover) \<in> set (new_events w w')"
    using rec ev by simp
  moreover have "\<forall>r'. (Rename (oldPath_of (executable w)) (executable w), r') \<in> set (new_events w w') \<longrightarrow> r' = errRecover"
    using uniq ev post by auto
  moreover have "res = Some (case errRecover of None \<Rightarrow> e1 | Some e2 \<Rightarrow> Errorf_update_and_recovery (Some e1) e2)"
    using swap(4) err by (cases errRecover) simp_all
  ultimately show ?thesis by blast
qed

lemma install_after_prefix:
  assumes pre: "trace w2 = trace w @ pre" "executable w2 = executable w"
    and norename: "\<forall>ev \<in> set pre. \<not> is_mutation (fst ev)"
    and run: "install u path w2 = (u', res, w')"
    and promote: "(Rename (newPath_of (executable w)) (executable w), Some e1) \<in> set (new_events w w')"
  shows "\<exists>r. (Rename (oldPath_of (executable w)) (executable w), r) \<in> set (new_events w w') \<and>
    (\<forall>r'. (Rename (oldPath_of (executable w)) (executable w), r') \<in> set (new_events w w') \<longrightarrow> r' = r) \<and>
    res = Some (case r of None \<Rightarrow> e1 | Some e2 \<Rightarrow> Errorf_update_and_recovery (Some e1) e2)"
proof -
  have "\<exists>evs. trace w' = trace w2 @ evs"
    using run
  proof (cases rule: install_elim)
    case (open_fail e)
    then show ?thesis by (auto dest!: os_Open_T)
  next
    case (fetch_fail w1 e)
    then show ?thesis using fetchFullBin_T(1) [OF fetch_fail(2)] by (auto dest!: os_Open_T)
  next
    case (swap w1 bin w2' err errRecover w3)
    then show ?thesis using fetchFullBin_T(1) [OF swap(2)]
      by (auto dest!: os_Open_T fromStream_T simp: run_callback_def split: option.splits)
  qed
  then obtain evs where evs: "trace w' = trace w2 @ evs" by blast
  then have ne2: "new_events w2 w' = evs" by (rule new_events_append)
  from pre(1) evs have ne: "new_events w w' = pre @ evs" by (rule new_events_trans)
  have rn: "\<And>s d r. (Rename s d, r) \<notin> set pre"
    using norename by force
  from promote have "(Rename (newPath_of (executable w2)) (executable w2), Some e1) \<in> set (new_events w2 w')"
    by (simp add: ne ne2 rn pre(2))
  from install_promote_failed [OF run this] show ?thesis
    by (simp add: ne ne2 rn pre(2))
qed

text \<open>
  C2.  In every run of \<open>Update\<close> or \<open>UpdateForce\<close> in which the promoting rename (staged file
  onto the executable) fails with \<open>e1\<close>, the recovering rename (backup onto the executable) is
  made, once.  If it succeeds, the result is exactly \<open>e1\<close>; if it fails with \<open>e2\<close>, the result
  is the error built by \<^verbatim>\<open>fmt.Errorf\<close> from both \<open>e1\<close> and \<open>e2\<close>.
\<close>

theorem promote_failure_reported:
  assumes "f = Update \<or> f = UpdateForce"
    and run: "f u w = (u', res, w')"
    and promote: "(Rename (newPath_of (executable w)) (executable w), Some e1) \<in> set (new_events w w')"
  shows "\<exists>r. (Rename (oldPath_of (executable w)) (executable w), r) \<in> set (new_events w w') \<and>
    (\<forall>r'. (Rename (oldPath_of (executable w)) (executable w), r') \<in> set (new_events w w') \<longrightarrow> r' = r) \<and>
    res = Some (case r of None \<Rightarrow> e1 | Some e2 \<Rightarrow> Errorf_update_and_recovery (Some e1) e2)"
proof -
  obtain r0 w1 where e0: "os_Executable w = (r0, w1)" by (cases "os_Executable w")
  show ?thesis
  proof (cases r0)
    case (Inl e)
    with e0 assms have "w' = w1"
      by (auto simp: Update_def UpdateForce_def)
    with e0 Inl have "trace w' = trace w @ [(Executable, Some e)]"
      by (auto dest!: os_Executable_D)
    with promote show ?thesis by (simp add: new_events_def)
  next
    case (Inr p)
    obtain p' w2 where e1: "resolve p w1 = (p', w2)" by (cases "resolve p w1")
    from Update_prefix [OF e0 [unfolded Inr] e1]
    obtain e where t2: "trace w2 = trace w @ [(Executable, None), (EvalSymlinks p, e)]"
      and x2: "executable w2 = executable w" by blast
    from assms(1) show ?thesis
    proof
      assume f: "f = UpdateForce"
      with run e0 e1 Inr have "install u p' w2 = (u', res, w')"
        by (simp add: UpdateForce_def)
      from install_after_prefix [OF t2 x2 _ this promote] show ?thesis by simp
    next
      assume f: "f = Update"
      obtain u2 r2 w3 where e2: "FetchInfo u w2 = (u2, r2, w3)" by (cases "FetchInfo u w2")
      from FetchInfo_T(1,3) [OF e2] obtain ev where
        t3: "trace w3 = trace w2 @ [(Fetch (ApiURL u @ url_QueryEscape (CmdName u) @ ''/'' @
               url_QueryEscape (plat w2) @ ''.json''), ev)]"
        and x3: "executable w3 = executable w2" by blast
      have t3': "trace w3 = trace w @ [(Executable, None), (EvalSymlinks p, e),
           (Fetch (ApiURL u @ url_QueryEscape (CmdName u) @ ''/'' @
               url_QueryEscape (plat w2) @ ''.json''), ev)]"
        using t2 t3 by simp
      show ?thesis
      proof (cases "r2 = None \<and> Version (Info u2) \<noteq> CurrentVersion u2")
        case True
        with f run e0 e1 e2 Inr have "install u2 p' w3 = (u', res, w')"
          by (simp add: Update_def)
        from install_after_prefix [OF t3' _ _ this promote] show ?thesis by (simp add: x2 x3)
      next
        case False
        with f run e0 e1 e2 Inr have "w' = w3"
          by (auto simp: Update_def split: option.splits)
        with promote t3' show ?thesis by (simp add: new_events_def)
      qed
    qed
  qed
qed

theorem promote_failure_reported_witness:
  "(Rename (newPath_of exe0) exe0, Some (OSError ''promote''))
     \<in> set (new_events world_swap_fails (world_after (Update updater0 world_swap_fails))) \<and>
   (Rename (oldPath_of exe0) exe0, Some (OSError ''recover''))
     \<in> set (new_events world_swap_fails (world_after (Update updater0 world_swap_fails))) \<and>
   fst (snd (Update updater0 world_swap_fails)) =
     Some (Errorf_update_and_recovery (Some (OSError ''promote'')) (OSError ''recover''))"
proof -
  let ?w' = "world_after (Update updater0 world_swap_fails)"
  have run: "Update updater0 world_swap_fails =
     (fst (Update updater0 world_swap_fails), fst (snd (Update updater0 world_swap_fails)), ?w')"
    by (simp add: world_after_def)
  have ev: "new_events world_swap_fails ?w' =
     [(Executable, None), (EvalSymlinks exe0, None),
      (Fetch ''http://updates.example.com/app/linux-amd64.json'', None),
      (Open exe0, None),
      (Fetch ''http://updates.example.com/app/1.2.0/linux-amd64.zst'', None),
      (Executable, None),
      (OpenFile (newPath_of exe0) perm_0755, None),
      (Write (newPath_of exe0) [7, 8, 9], None),
      (Remove (oldPath_of exe0), Some ErrNotExist),
      (Rename exe0 (oldPath_of exe0), None),
      (Rename (newPath_of exe0) exe0, Some (OSError ''promote'')),
      (Rename (oldPath_of exe0) exe0, Some (OSError ''recover''))]"
    by (simp add: swap_fails_run world_after_def new_events_def swap_fails_facts)
  have promote: "(Rename (newPath_of (executable world_swap_fails)) (executable world_swap_fails),
      Some (OSError ''promote'')) \<in> set (new_events world_swap_fails ?w')"
    by (simp add: ev swap_fails_facts)
  have recover: "(Rename (oldPath_of (executable world_swap_fails)) (executable world_swap_fails),
      Some (OSError ''recover'')) \<in> set (new_events world_swap_fails ?w')"
    by (simp add: ev swap_fails_facts)
  from promote_failure_reported [of Update, OF _ run promote]
  obtain r where "\<forall>r'. (Rename (oldPath_of (executable world_swap_fails)) (executable world_swap_fails), r')
        \<in> set (new_events world_swap_fails ?w') \<longrightarrow> r' = r"
    and res: "fst (snd (Update updater0 world_swap_fails)) =
      Some (case r of None \<Rightarrow> OSError ''promote''
            | Some e2 \<Rightarrow> Errorf_update_and_recovery (Some (OSError ''promote'')) e2)"
    by blast
  with recover have "r = Some (OSError ''recover'')" by blast
  with res promote recover show ?thesis by (simp add: swap_fails_facts)
qed

section \<open>Update and UpdateForce\<close>

text \<open>
  C4.  \<open>UpdateForce\<close> should be \<open>Update\<close> without the comparison of versions: resolve the
  manifest, then fetch the artifact of the manifest's version and swap.  It never calls
  \<open>FetchInfo\<close>.  In a fresh session whose version equals that of the manifest it sends no
  request for the manifest, asks for the artifact of the empty version, gets 404, and installs
  nothing.
\<close>

theorem UpdateForce_skips_manifest:
  "UpdateForce updater_current world0 =
     (updater_current, Some (BadHTTPStatus ''http://updates.example.com/app//linux-amd64.zst'' 404),
      world0\<lparr>trace := [(Executable, None), (EvalSymlinks exe0, None), (Open exe0, None),
                         (Fetch ''http://updates.example.com/app//linux-amd64.zst'', None)]\<rparr>)"
  by (simp add: UpdateForce_def resolve_def install_def fetch_defs prim_defs path_defs world_defs)

text \<open>
  In general \<open>UpdateForce\<close> leaves the session as it was and sends at most one request, for
  the artifact of whatever version the session already held.
\<close>

lemma UpdateForce_requests:
  assumes "UpdateForce u w = (u', res, w')"
  shows "u' = u \<and>
    (requests (new_events w w') = [] \<or>
     (\<exists>e. requests (new_events w w') =
        [(Fetch (ApiURL u @ url_QueryEscape (CmdName u) @ ''/'' @ url_QueryEscape (Version (Info u))
                      @ ''/'' @ url_QueryEscape (plat w) @ ''.zst''), e)]))"
proof -
  obtain r0 w1 where e0: "os_Executable w = (r0, w1)" by (cases "os_Executable w")
  show ?thesis
  proof (cases r0)
    case (Inl e)
    with e0 assms have "w' = w1" "u' = u" by (auto simp: UpdateForce_def)
    with e0 show ?thesis by (auto dest!: os_Executable_D simp: new_events_def requests_def)
  next
    case (Inr p)
    obtain p' w2 where e1: "resolve p w1 = (p', w2)" by (cases "resolve p w1")
    from Update_prefix [OF e0 [unfolded Inr] e1]
    obtain e where t2: "trace w2 = trace w @ [(Executable, None), (EvalSymlinks p, e)]"
      and g2: "GOOS w2 = GOOS w" "GOARCH w2 = GOARCH w" by blast
    from assms e0 e1 Inr have inst: "install u p' w2 = (u', res, w')"
      by (simp add: UpdateForce_def)
    then show ?thesis
    proof (cases rule: install_elim)
      case (open_fail e')
      with t2 inst show ?thesis
        by (auto dest!: os_Open_T simp: new_events_def requests_def install_def)
    next
      case (fetch_fail w3 e')
      from fetch_fail(1) have t3: "trace w3 = trace w2 @ [(Open p', None)]"
        and g3: "GOOS w3 = GOOS w2" "GOARCH w3 = GOARCH w2" by (auto dest!: os_Open_T)
      from fetchFullBin_T(1) [OF fetch_fail(2)] obtain ev where
        "trace w' = trace w3 @ [(Fetch (ApiURL u @ url_QueryEscape (CmdName u) @ ''/'' @
            url_QueryEscape (Version (Info u)) @ ''/'' @ url_QueryEscape (plat w3) @ ''.zst''), ev)]"
        by blast
      moreover have "plat w3 = plat w" by (simp add: plat_def g2 g3)
      moreover have "u' = u" using inst fetch_fail by (simp add: install_def)
      ultimately show ?thesis using t2 t3 by (auto simp: new_events_def requests_def)
    next
      case (swap w3 bin w4 err errRecover w5)
      from swap(1) have t3: "trace w3 = trace w2 @ [(Open p', None)]"
        and g3: "GOOS w3 = GOOS w2" "GOARCH w3 = GOARCH w2" by (auto dest!: os_Open_T)
      from fetchFullBin_T(1) [OF swap(2)] obtain ev where
        t4: "trace w4 = trace w3 @ [(Fetch (ApiURL u @ url_QueryEscape (CmdName u) @ ''/'' @
            url_QueryEscape (Version (Info u)) @ ''/'' @ url_QueryEscape (plat w3) @ ''.zst''), ev)]"
        by blast
      have pl: "plat w3 = plat w" by (simp add: plat_def g2 g3)
      from swap(3) obtain evs where t5: "trace w5 = trace w4 @ evs" and evs: "new_events w4 w5 = evs"
        by (auto dest!: fromStream_T)
      from fromStream_requests [OF swap(3)] evs have r5: "requests evs = []" by simp
      have "\<exists>post. trace w' = trace w5 @ post \<and> requests post = []"
        using swap(5) by (auto simp: run_callback_def requests_def split: option.splits)
      then obtain post where t6: "trace w' = trace w5 @ post" and r6: "requests post = []" by blast
      have "u' = u" using inst swap by (auto simp: install_def split: option.splits)
      moreover have "new_events w w' = [(Executable, None), (EvalSymlinks p, e), (Open p', None),
          (Fetch (ApiURL u @ url_QueryEscape (CmdName u) @ ''/'' @
            url_QueryEscape (Version (Info u)) @ ''/'' @ url_QueryEscape (plat w) @ ''.zst''), ev)] @ evs @ post"
        using t2 t3 t4 t5 t6 pl by (simp add: new_events_def)
      ultimately show ?thesis using r5 r6 by (auto simp: requests_def)
    qed
  qed
qed

text \<open>
  C5.  \<open>Update\<close> resolves the link behind the path of the executable, but uses the resolved
  path only to open the file; \<open>fromStream\<close> asks \<^verbatim>\<open>os.Executable\<close> again and works at the
  path it reports.  Started through the link \<^verbatim>\<open>/usr/bin/app\<close> to \<^verbatim>\<open>/opt/app\<close>, the transaction
  stages, evacuates and promotes in \<^verbatim>\<open>/usr/bin\<close>: the link is replaced by the new binary and
  \<^verbatim>\<open>/opt/app\<close> keeps the old one.
\<close>

theorem Update_swaps_the_link:
  "Update updater0 world_link =
     (updater0\<lparr>Info := \<lparr>Version = ''1.2.0''\<rparr>\<rparr>, None,
      world_link
        \<lparr>files := [exe0 \<mapsto> \<lparr>content = [1, 2, 3], mode = 7 * 64, hidden = False\<rparr>,
                   link0 \<mapsto> \<lparr>content = [7, 8, 9], mode = perm_0755, hidden = False\<rparr>],
         trace := [(Executable, None), (EvalSymlinks link0, None),
                   (Fetch ''http://updates.example.com/app/linux-amd64.json'', None),
                   (Open exe0, None),
                   (Fetch ''http://updates.example.com/app/1.2.0/linux-amd64.zst'', None),
                   (Executable, None),
                   (OpenFile (newPath_of link0) perm_0755, None),
                   (Write (newPath_of link0) [7, 8, 9], None),
                   (Remove (oldPath_of link0), Some ErrNotExist),
                   (Rename link0 (oldPath_of link0), None),
                   (Rename (newPath_of link0) link0, None),
                   (Remove (oldPath_of link0), None)]\<rparr>)"
  by (simp add: Update_def resolve_def install_def fromStream_def bytes_NewBuffer_def perm_0755_def
      fetch_defs prim_defs path_defs world_defs)

text \<open>
  C6.  With \<open>CurrentVersion\<close> \<^verbatim>\<open>dev\<close>, \<open>Update\<close> should send no request and return \<^verbatim>\<open>nil\<close>.
  \<open>Update\<close> does not look at \<open>WantUpdate\<close>: it fetches the manifest and, the versions
  differing, the artifact, and installs it.
\<close>

theorem Update_dev_installs:
  "Update updater_dev world0 =
     (updater_dev\<lparr>Info := \<lparr>Version = ''1.2.0''\<rparr>\<rparr>, None,
      world0
        \<lparr>files := [exe0 \<mapsto> \<lparr>content = [7, 8, 9], mode = perm_0755, hidden = False\<rparr>],
         trace := [(Executable, None), (EvalSymlinks exe0, None),
                   (Fetch ''http://updates.example.com/app/linux-amd64.json'', None),
                   (Open exe0, None),
                   (Fetch ''http://updates.example.com/app/1.2.0/linux-amd64.zst'', None),
                   (Executable, None),
                   (OpenFile (newPath_of exe0) perm_0755, None),
                   (Write (newPath_of exe0) [7, 8, 9], None),
                   (Remove (oldPath_of exe0), Some ErrNotExist),
                   (Rename exe0 (oldPath_of exe0), None),
                   (Rename (newPath_of exe0) exe0, None),
                   (Remove (oldPath_of exe0), None)]\<rparr>)"
  by (simp add: Update_def resolve_def install_def fromStream_def bytes_NewBuffer_def perm_0755_def
      fetch_defs prim_defs path_defs world_defs)

text \<open>
  \<open>WantUpdate\<close> and \<open>BackgroundRun\<close> do treat \<^verbatim>\<open>dev\<close> as the claim says: \<open>WantUpdate\<close> is false
  exactly for \<^verbatim>\<open>dev\<close>, and \<open>BackgroundRun\<close> then returns \<^verbatim>\<open>nil\<close> having done nothing.
\<close>

lemma WantUpdate_dev: "WantUpdate u = (CurrentVersion u \<noteq> ''dev'')"
  by (simp add: WantUpdate_def)

lemma BackgroundRun_dev: "CurrentVersion u = ''dev'' \<Longrightarrow> BackgroundRun u w = (u, None, w)"
  by (simp add: BackgroundRun_def WantUpdate_def)

text \<open>
  C8.  When the version of the fetched manifest equals \<open>CurrentVersion\<close>, \<open>Update\<close> returns
  \<^verbatim>\<open>nil\<close> right after the fetch of the manifest: the files are unchanged, no call that could
  change a file has been made, and the request for the manifest is the only request sent.
\<close>

theorem Update_up_to_date:
  assumes "os_Executable w = (Inr p, w1)" and "resolve p w1 = (p', w2)"
    and "FetchInfo u w2 = (u', None, w3)" and "Version (Info u') = CurrentVersion u"
  shows "Update u w = (u', None, w3) \<and> files w3 = files w \<and>
     mutations (new_events w w3) = [] \<and>
     requests (new_events w w3) =
       [(Fetch (ApiURL u @ url_QueryEscape (CmdName u) @ ''/'' @ url_QueryEscape (plat w) @ ''.json''), None)]"
proof -
  from assms(3) have "u' = u\<lparr>Info := Info u'\<rparr>" by (rule FetchInfo_T)
  then have "CurrentVersion u' = CurrentVersion u"
    by (metis Updater.select_convs(1) Updater.surjective Updater.update_convs(7))
  with assms have run: "Update u w = (u', None, w3)" by (simp add: Update_def)
  from Update_prefix [OF assms(1,2)]
  obtain e where t2: "trace w2 = trace w @ [(Executable, None), (EvalSymlinks p, e)]"
    and f2: "files w2 = files w" and g2: "GOOS w2 = GOOS w" "GOARCH w2 = GOARCH w" by blast
  from FetchInfo_T(1,2) [OF assms(3)]
  have t3: "trace w3 = trace w2 @ [(Fetch (ApiURL u @ url_QueryEscape (CmdName u) @ ''/'' @
               url_QueryEscape (plat w2) @ ''.json''), None)]"
    and f3: "files w3 = files w2" by auto
  have "plat w2 = plat w" by (simp add: plat_def g2)
  with t2 t3 have "new_events w w3 = [(Executable, None), (EvalSymlinks p, e),
     (Fetch (ApiURL u @ url_QueryEscape (CmdName u) @ ''/'' @ url_QueryEscape (plat w) @ ''.json''), None)]"
    by (simp add: new_events_def)
  then show ?thesis using run f2 f3 by (simp add: mutations_def requests_def)
qed

theorem Update_up_to_date_witness:
  "os_Executable world0 = (Inr exe0, world0\<lparr>trace := [(Executable, None)]\<rparr>) \<and>
   resolve exe0 (world0\<lparr>trace := [(Executable, None)]\<rparr>) =
     (exe0, world0\<lparr>trace := [(Executable, None), (EvalSymlinks exe0, None)]\<rparr>) \<and>
   FetchInfo updater_current (world0\<lparr>trace := [(Executable, None), (EvalSymlinks exe0, None)]\<rparr>) =
     (updater_current\<lparr>Info := \<lparr>Version = ''1.2.0''\<rparr>\<rparr>, None,
      world0\<lparr>trace := [(Executable, None), (EvalSymlinks exe0, None),
         (Fetch ''http://updates.example.com/app/linux-amd64.json'', None)]\<rparr>) \<and>
   Version (Info (updater_current\<lparr>Info := \<lparr>Version = ''1.2.0''\<rparr>\<rparr>)) = CurrentVersion updater_current \<and>
   Update updater_current world0 =
     (updater_current\<lparr>Info := \<lparr>Version = ''1.2.0''\<rparr>\<rparr>, None,
      world0\<lparr>trace := [(Executable, None), (EvalSymlinks exe0, None),
         (Fetch ''http://updates.example.com/app/linux-amd64.json'', None)]\<rparr>) \<and>
   files (world0\<lparr>trace := [(Executable, None), (EvalSymlinks exe0, None),
         (Fetch ''http://updates.example.com/app/linux-amd64.json'', None)]\<rparr>) = files world0 \<and>
   mutations (new_events world0 (world0\<lparr>trace := [(Executable, None), (EvalSymlinks exe0, None),
         (Fetch ''http://updates.example.com/app/linux-amd64.json'', None)]\<rparr>)) = [] \<and>
   requests (new_events world0 (world0\<lparr>trace := [(Executable, None), (EvalSymlinks exe0, None),
         (Fetch ''http://updates.example.com/app/linux-amd64.json'', None)]\<rparr>)) =
     [(Fetch ''http://updates.example.com/app/linux-amd64.json'', None)]"
proof -
  have h1: "os_Executable world0 = (Inr exe0, world0\<lparr>trace := [(Executable, None)]\<rparr>)"
    by (simp add: prim_defs world_defs)
  have h2: "resolve exe0 (world0\<lparr>trace := [(Executable, None)]\<rparr>) =
     (exe0, world0\<lparr>trace := [(Executable, None), (EvalSymlinks exe0, None)]\<rparr>)"
    by (simp add: resolve_def prim_defs world_defs)
  have h3: "FetchInfo updater_current (world0\<lparr>trace := [(Executable, None), (EvalSymlinks exe0, None)]\<rparr>) =
     (updater_current\<lparr>Info := \<lparr>Version = ''1.2.0''\<rparr>\<rparr>, None,
      world0\<lparr>trace := [(Executable, None), (EvalSymlinks exe0, None),
         (Fetch ''http://updates.example.com/app/linux-amd64.json'', None)]\<rparr>)"
    by (simp add: fetch_defs prim_defs world_defs)
  have h4: "Version (Info (updater_current\<lparr>Info := \<lparr>Version = ''1.2.0''\<rparr>\<rparr>)) = CurrentVersion updater_current"
    by (simp add: world_defs)
  have url: "ApiURL updater_current @ url_QueryEscape (CmdName updater_current) @ ''/'' @
      url_QueryEscape (plat world0) @ ''.json'' = ''http://updates.example.com/app/linux-amd64.json''"
    by (simp add: fetch_defs world_defs)
  from Update_up_to_date [OF h1 h2 h3 h4, unfolded url] h1 h2 h3 h4 show ?thesis
    by blast
qed

section \<open>Checking for an update\<close>

text \<open>
  C7.  When the executable is found and opened and the manifest is fetched and decoded,
  \<open>UpdateAvailable\<close> returns no error and the empty string if the version of the manifest is,
  character for character, \<open>CurrentVersion\<close>; otherwise it returns the version of the manifest.
  Nothing but equality of the two strings is looked at, so an older version is reported as well.
\<close>

theorem UpdateAvailable_result:
  assumes "os_Executable w = (Inr p, w1)" and "os_Open p w1 = (None, w2)"
    and "FetchInfo u w2 = (u', None, w3)"
  shows "UpdateAvailable u w =
     (u', Inr (if Version (Info u') = CurrentVersion u then '''' else Version (Info u')), w3)"
proof -
  from assms(3) have "u' = u\<lparr>Info := Info u'\<rparr>" by (rule FetchInfo_T)
  then have "CurrentVersion u' = CurrentVersion u"
    by (metis Updater.select_convs(1) Updater.surjective Updater.update_convs(7))
  with assms show ?thesis by (simp add: UpdateAvailable_def)
qed

theorem UpdateAvailable_result_witness:
  "os_Executable world0 = (Inr exe0, world0\<lparr>trace := [(Executable, None)]\<rparr>) \<and>
   os_Open exe0 (world0\<lparr>trace := [(Executable, None)]\<rparr>) =
     (None, world0\<lparr>trace := [(Executable, None), (Open exe0, None)]\<rparr>) \<and>
   FetchInfo updater0 (world0\<lparr>trace := [(Executable, None), (Open exe0, None)]\<rparr>) =
     (updater0\<lparr>Info := \<lparr>Version = ''1.2.0''\<rparr>\<rparr>, None,
      world0\<lparr>trace := [(Executable, None), (Open exe0, None),
         (Fetch ''http://updates.example.com/app/linux-amd64.json'', None)]\<rparr>) \<and>
   UpdateAvailable updater0 world0 =
     (updater0\<lparr>Info := \<lparr>Version = ''1.2.0''\<rparr>\<rparr>, Inr ''1.2.0'',
      world0\<lparr>trace := [(Executable, None), (Open exe0, None),
         (Fetch ''http://updates.example.com/app/linux-amd64.json'', None)]\<rparr>)"
proof -
  have h1: "os_Executable world0 = (Inr exe0, world0\<lparr>trace := [(Executable, None)]\<rparr>)"
    by (simp add: os_Executable_def syscall_def world0_def)
  have h2: "os_Open exe0 (world0\<lparr>trace := [(Executable, None)]\<rparr>) =
     (None, world0\<lparr>trace := [(Executable, None), (Open exe0, None)]\<rparr>)"
    by (simp add: os_Open_def syscall_def world0_def)
  have h3: "FetchInfo updater0 (world0\<lparr>trace := [(Executable, None), (Open exe0, None)]\<rparr>) =
     (updater0\<lparr>Info := \<lparr>Version = ''1.2.0''\<rparr>\<rparr>, None,
      world0\<lparr>trace := [(Executable, None), (Open exe0, None),
         (Fetch ''http://updates.example.com/app/linux-amd64.json'', None)]\<rparr>)"
    by (simp add: FetchInfo_def fetch_def HTTPRequester_Fetch_def syscall_def url_QueryEscape_def
        escape_byte_def unreserved_def plat_def world0_def updater0_def)
  from UpdateAvailable_result [OF h1 h2 h3] show ?thesis
    using h1 h2 h3 by (simp add: updater0_def)
qed

text \<open>
  Conversely, whenever \<open>UpdateAvailable\<close> returns a string, it is the one described.
\<close>

lemma UpdateAvailable_value:
  assumes "UpdateAvailable u w = (u', Inr v, w')"
  shows "v = (if Version (Info u') = CurrentVersion u then [] else Version (Info u'))"
proof -
  obtain r0 w1 where e0: "os_Executable w = (r0, w1)" by (cases "os_Executable w")
  with assms obtain p where p: "r0 = Inr p" by (cases r0) (auto simp: UpdateAvailable_def)
  obtain r1 w2 where e1: "os_Open p w1 = (r1, w2)" by (cases "os_Open p w1")
  with assms e0 p have r1: "r1 = None" by (cases r1) (auto simp: UpdateAvailable_def)
  obtain u2 r2 w3 where e2: "FetchInfo u w2 = (u2, r2, w3)" by (cases "FetchInfo u w2")
  with assms e0 e1 p r1 have r2: "r2 = None" by (cases r2) (auto simp: UpdateAvailable_def)
  from e2 have "u2 = u\<lparr>Info := Info u2\<rparr>" by (rule FetchInfo_T)
  then have "CurrentVersion u2 = CurrentVersion u"
    by (metis Updater.select_convs(1) Updater.surjective Updater.update_convs(7))
  with assms e0 e1 e2 p r1 r2 show ?thesis
    by (auto simp: UpdateAvailable_def split: if_splits)
qed

text \<open>
  C10.  \<open>UpdateAvailable\<close> never changes a file: the files are the same afterwards, and no
  call that could change one is made.  When \<^verbatim>\<open>os.Executable\<close> fails, or the executable cannot be
  opened, it returns an error and has sent no request.
\<close>

theorem UpdateAvailable_frame:
  assumes "UpdateAvailable u w = (u', r, w')"
  shows "files w' = files w \<and> mutations (new_events w w') = [] \<and>
    (((\<exists>e. fst (os_Executable w) = Inl e) \<or>
      (\<exists>p w1 e. os_Executable w = (Inr p, w1) \<and> fst (os_Open p w1) = Some e))
     \<longrightarrow> (\<exists>e. r = Inl e) \<and> requests (new_events w w') = [])"
proof -
  obtain r0 w1 where e0: "os_Executable w = (r0, w1)" by (cases "os_Executable w")
  show ?thesis
  proof (cases r0)
    case (Inl e)
    with e0 assms show ?thesis
      by (auto simp: UpdateAvailable_def mutations_def requests_def new_events_def dest!: os_Executable_D)
  next
    case (Inr p)
    obtain r1 w2 where e1: "os_Open p w1 = (r1, w2)" by (cases "os_Open p w1")
    show ?thesis
    proof (cases r1)
      case (Some e)
      with e0 e1 Inr assms show ?thesis
        by (auto simp: UpdateAvailable_def mutations_def requests_def new_events_def
            dest!: os_Executable_D os_Open_T)
    next
      case None
      obtain u2 r2 w3 where e2: "FetchInfo u w2 = (u2, r2, w3)" by (cases "FetchInfo u w2")
      from e2 obtain e where "trace w3 = trace w2 @
           [(Fetch (ApiURL u @ url_QueryEscape (CmdName u) @ ''/'' @ url_QueryEscape (plat w2) @ ''.json''), e)]"
        and "files w3 = files w2"
        using FetchInfo_T(1,2) by blast
      moreover have "w' = w3"
        using e0 e1 e2 Inr None assms by (auto simp: UpdateAvailable_def split: option.splits if_splits)
      ultimately show ?thesis using e0 e1 Inr None
        by (auto simp: mutations_def requests_def new_events_def dest!: os_Executable_D os_Open_T)
    qed
  qed
qed

theorem UpdateAvailable_frame_witness:
  "UpdateAvailable updater0 world_no_executable =
     (updater0, Inl (OSError ''no executable''),
      world_no_executable\<lparr>trace := [(Executable, Some (OSError ''no executable''))]\<rparr>) \<and>
   fst (os_Executable world_no_executable) = Inl (OSError ''no executable'') \<and>
   files (world_no_executable\<lparr>trace := [(Executable, Some (OSError ''no executable''))]\<rparr>) =
     files world_no_executable \<and>
   mutations (new_events world_no_executable
     (world_no_executable\<lparr>trace := [(Executable, Some (OSError ''no executable''))]\<rparr>)) = [] \<and>
   requests (new_events world_no_executable
     (world_no_executable\<lparr>trace := [(Executable, Some (OSError ''no executable''))]\<rparr>)) = []"
proof -
  have run: "UpdateAvailable updater0 world_no_executable =
     (updater0, Inl (OSError ''no executable''),
      world_no_executable\<lparr>trace := [(Executable, Some (OSError ''no executable''))]\<rparr>)"
    by (simp add: UpdateAvailable_def os_Executable_def syscall_def world_no_executable_def
        world_failing_def world0_def)
  have ex: "fst (os_Executable world_no_executable) = Inl (OSError ''no executable'')"
    by (simp add: os_Executable_def syscall_def world_no_executable_def world_failing_def world0_def)
  from UpdateAvailable_frame [OF run] ex show ?thesis
    using run by blast
qed

end
